theory Spec2Isabelle
  imports Main "HOL-Library.Word"
begin


section \<open>Go values\<close>

type_synonym int64 = "64 word"
type_synonym int32 = "32 word"
type_synonym uint32 = "32 word"
type_synonym uint64 = "64 word"

text \<open>Go's \<^verbatim>\<open>int\<close> on the 64-bit targets the bot is built for.\<close>

type_synonym go_int = "64 word"

text \<open>
  A \<^verbatim>\<open>time.Time\<close> is an instant: whole seconds since the Unix epoch and the
  nanoseconds within that second (0 to 999999999). Location and the monotonic reading
  play no part in the code modelled here.
\<close>

datatype gotime = Time (sec: int) (nsec: nat)

definition Unix :: "gotime \<Rightarrow> int" where
  "Unix t = sec t"

text \<open>\<^verbatim>\<open>time.Unix(s, 0)\<close>.\<close>

definition time_Unix :: "int \<Rightarrow> gotime" where
  "time_Unix s = Time s 0"

text \<open>The zero \<^verbatim>\<open>time.Time\<close> is January 1, year 1, 00:00:00 UTC.\<close>

definition zero_time :: gotime where
  "zero_time = Time (- 62135596800) 0"

definition IsZero :: "gotime \<Rightarrow> bool" where
  "IsZero t \<longleftrightarrow> sec t = - 62135596800 \<and> nsec t = 0"

text \<open>The same instant with its sub-second part dropped.\<close>

definition truncate_to_second :: "gotime \<Rightarrow> gotime" where
  "truncate_to_second t = Time (sec t) 0"

section \<open>Errors (errors.go)\<close>

text \<open>
  The four package-level error values, and the errors that come from outside the
  package: \<open>External\<close> is an error returned by the driver or the store,
  \<open>ScanError\<close> one returned by a row scanner, and \<open>Errorf msg e\<close> is
  \<^verbatim>\<open>fmt.Errorf(msg + ": %w", e)\<close>, which wraps \<open>e\<close>.
\<close>

datatype error =
    ErrMissingConfig
  | ErrUserNotFound
  | ErrTokensNotFound
  | ErrSubscriptionNotFound
  | External string
  | ScanError
  | Errorf string error

text \<open>\<^verbatim>\<open>errors.Is(e, target)\<close>: \<open>target\<close> is \<open>e\<close> or is wrapped by it.\<close>

fun errors_Is :: "error \<Rightarrow> error \<Rightarrow> bool" where
  "errors_Is (Errorf msg e) target = (Errorf msg e = target \<or> errors_Is e target)"
| "errors_Is e target = (e = target)"

section \<open>Values of the table store\<close>

datatype ydb_type = TypeBool | TypeInt32 | TypeInt64 | TypeUTF8 | TypeDatetime | TypeTimestamp | TypeVoid

datatype ydb_value =
    BoolValue bool
  | Int32Value int32
  | Int64Value int64
  | UTF8Value string
  | DatetimeValue uint32
  | TimestampValue uint64
  | OptionalValue ydb_value
  | NullValue ydb_type

text \<open>The driver's \<^verbatim>\<open>types.TextValue\<close> and \<^verbatim>\<open>types.TypeText\<close> are the UTF-8 text value and type.\<close>

abbreviation TextValue :: "string \<Rightarrow> ydb_value" where
  "TextValue \<equiv> UTF8Value"

abbreviation TypeText :: ydb_type where
  "TypeText \<equiv> TypeUTF8"

text \<open>
  \<^verbatim>\<open>types.TimestampValueFromTime\<close>: the store's Timestamp counts microseconds since
  the epoch in an unsigned 64-bit integer.
\<close>

definition TimestampValueFromTime :: "gotime \<Rightarrow> ydb_value" where
  "TimestampValueFromTime t = TimestampValue (word_of_int (sec t * 1000000 + int (nsec t div 1000)))"

text \<open>
  repository.go calls \<^verbatim>\<open>types.OptionalValue(T, p)\<close> with a type and a pointer to a
  value: a nil pointer is the null of type \<open>T\<close>, a set pointer the optional of the
  value it points to.
\<close>

definition OptionalValueOf :: "ydb_type \<Rightarrow> ydb_value option \<Rightarrow> ydb_value" where
  "OptionalValueOf T p = (case p of None \<Rightarrow> NullValue T | Some v \<Rightarrow> OptionalValue v)"

definition is_null :: "ydb_value \<Rightarrow> bool" where
  "is_null v = (case v of NullValue _ \<Rightarrow> True | _ \<Rightarrow> False)"

section \<open>The table store\<close>

text \<open>
  A row maps column names to values; a table is the list of its rows in the order the
  store returns them. The statements are the five shapes the package's query texts
  have: every \<^verbatim>\<open>WHERE\<close> clause is a conjunction of \<open>column = value\<close>, and the bound
  parameters stand where the text names them.
\<close>

type_synonym row = "string \<rightharpoonup> ydb_value"
type_synonym tables = "string \<Rightarrow> row list"
type_synonym bindings = "(string \<times> ydb_value) list"

datatype statement =
    SELECT "string list" string bindings
  | UPSERT string bindings
  | INSERT string bindings
  | UPDATE string bindings bindings
  | DELETE string bindings

text \<open>A result is a list of result sets, each the list of its rows, each row the
  selected columns in the order of the \<^verbatim>\<open>SELECT\<close>.\<close>

type_synonym result = "bindings list list"

text \<open>
  Modelled from the spec: the schema is not part of the sources. Users and UserTokens
  have the chat identity as primary key, SearchSubscription and Notification their
  generated id (section 3 of the specification).
\<close>

definition primary_key :: "string \<Rightarrow> string" where
  "primary_key t = (if t = ''users'' \<or> t = ''user_tokens'' then ''telegram_chat_id'' else ''id'')"

definition matches :: "bindings \<Rightarrow> row \<Rightarrow> bool" where
  "matches c r = list_all (\<lambda>(k, v). r k = Some v) c"

definition column :: "row \<Rightarrow> string \<Rightarrow> ydb_value" where
  "column r k = (case r k of Some v \<Rightarrow> v | None \<Rightarrow> NullValue TypeVoid)"

definition project :: "string list \<Rightarrow> row \<Rightarrow> bindings" where
  "project cols r = map (\<lambda>k. (k, column r k)) cols"

text \<open>
  What the store does with a statement: \<^verbatim>\<open>SELECT\<close> returns one result set,
  \<^verbatim>\<open>UPSERT\<close> writes the listed columns of the row with the given key or adds the row,
  \<^verbatim>\<open>INSERT\<close> adds the row and fails when the key exists, \<^verbatim>\<open>UPDATE\<close> sets the listed
  columns of the matching rows, \<^verbatim>\<open>DELETE\<close> removes the matching rows.
\<close>

fun execute :: "statement \<Rightarrow> tables \<Rightarrow> error + (result \<times> tables)" where
  "execute (SELECT cols t c) T = Inr ([map (project cols) (filter (matches c) (T t))], T)"
| "execute (UPSERT t vs) T =
     (let k = primary_key t; r = map_of vs
      in if list_ex (\<lambda>r0. r0 k = r k) (T t)
         then Inr ([], T(t := map (\<lambda>r0. if r0 k = r k then r0 ++ r else r0) (T t)))
         else Inr ([], T(t := T t @ [r])))"
| "execute (INSERT t vs) T =
     (let k = primary_key t; r = map_of vs
      in if list_ex (\<lambda>r0. r0 k = r k) (T t)
         then Inl (External ''PRECONDITION_FAILED: conflict with existing key'')
         else Inr ([], T(t := T t @ [r])))"
| "execute (UPDATE t s c) T =
     Inr ([], T(t := map (\<lambda>r. if matches c r then r ++ map_of s else r) (T t)))"
| "execute (DELETE t c) T = Inr ([], T(t := filter (\<lambda>r. \<not> matches c r) (T t)))"

section \<open>The process and its environment\<close>

datatype driver = Driver string

text \<open>
  The environment the package reads (the two settings, the clock, the UUID generator,
  whether opening the connection and executing a statement fail), the three package
  variables of the connection provider, and the contents of the store.
\<close>

record world =
  YDB_ENDPOINT :: string
  YDB_DATABASE :: string
  open_error :: "string option"
  execute_error :: "string option"
  now :: gotime
  uuid_New :: "128 word"
  once_done :: bool
  db :: "driver option"
  initErr :: "error option"
  ydb :: tables

section \<open>Connection provider (GetConnection)\<close>

definition ydb_Open :: "world \<Rightarrow> string \<Rightarrow> driver option \<times> error option" where
  "ydb_Open w dsn = (case open_error w of Some m \<Rightarrow> (None, Some (External m)) | None \<Rightarrow> (Some (Driver dsn), None))"

text \<open>The body passed to \<^verbatim>\<open>once.Do\<close>.\<close>

definition init_connection :: "world \<Rightarrow> world" where
  "init_connection w =
     (let endpoint = YDB_ENDPOINT w; database = YDB_DATABASE w
      in if endpoint = '''' \<or> database = '''' then w\<lparr>initErr := Some ErrMissingConfig\<rparr>
         else (case ydb_Open w (endpoint @ database) of (d, e) \<Rightarrow> w\<lparr>db := d, initErr := e\<rparr>))"

definition once_Do :: "(world \<Rightarrow> world) \<Rightarrow> world \<Rightarrow> world" where
  "once_Do f w = (if once_done w then w else (f w)\<lparr>once_done := True\<rparr>)"

definition GetConnection :: "world \<Rightarrow> (driver option \<times> error option) \<times> world" where
  "GetConnection w = (let w' = once_Do init_connection w in ((db w', initErr w'), w'))"

text \<open>
  \<^verbatim>\<open>db.Table().Do(ctx, func(s) { ... s.Execute(query, params) ... })\<close>: one statement
  executed on a session of the store. The execution fails with the store's error or
  returns the result and leaves the store changed. The closure is run once; the
  driver's own retries are not modelled.
\<close>

definition Table_Do :: "world \<Rightarrow> statement \<Rightarrow> (error + result) \<times> world" where
  "Table_Do w q =
     (case execute_error w of
        Some m \<Rightarrow> (Inl (External m), w)
      | None \<Rightarrow>
          (case execute q (ydb w) of
             Inl e \<Rightarrow> (Inl e, w)
           | Inr (res, T) \<Rightarrow> (Inr res, w\<lparr>ydb := T\<rparr>)))"

section \<open>Domain entities (package models)\<close>

record User =
  user_TelegramChatID :: int64
  user_Status :: string
  user_CreatedAt :: gotime
  user_LastAuthSuccessAt :: "gotime option"
  user_LastAuthFailureAt :: "gotime option"

record UserTokens =
  tok_TelegramChatID :: int64
  tok_AccessToken :: string
  tok_RefreshToken :: string
  tok_UserID :: string
  tok_Datadome :: string
  tok_AppToken :: string
  tok_CreatedAt :: gotime
  tok_UpdatedAt :: gotime

record SearchSubscription =
  sub_ID :: string
  sub_TelegramChatID :: int64
  sub_FromPlaceID :: string
  sub_FromPlaceName :: string
  sub_ToPlaceID :: string
  sub_ToPlaceName :: string
  sub_DepartureDate :: string
  sub_RequestedSeats :: go_int
  sub_IsActive :: bool
  sub_CreatedAt :: gotime
  sub_LastCheckedAt :: "gotime option"

record Notification =
  notif_ID :: string
  notif_TelegramChatID :: int64
  notif_SubscriptionID :: string
  notif_TripID :: string
  notif_TelegramMessageID :: go_int
  notif_Status :: string
  notif_CreatedAt :: gotime

section \<open>Generated identifiers\<close>

definition hex_digit :: "nat \<Rightarrow> char" where
  "hex_digit n = (''0123456789abcdef'' ! (n mod 16))"

text \<open>The \<open>k\<close>-th group of \<open>n\<close> bytes counted from the most significant end, in hexadecimal.\<close>

definition hex_bytes :: "128 word \<Rightarrow> nat \<Rightarrow> nat \<Rightarrow> string" where
  "hex_bytes u first n =
     map (\<lambda>i. hex_digit (unat (drop_bit (4 * (31 - i)) u))) [2 * first ..< 2 * (first + n)]"

text \<open>\<^verbatim>\<open>uuid.New().String()\<close>: the 16 bytes in the 8-4-4-4-12 form.\<close>

definition uuid_String :: "128 word \<Rightarrow> string" where
  "uuid_String u =
     hex_bytes u 0 4 @ ''-'' @ hex_bytes u 4 2 @ ''-'' @ hex_bytes u 6 2 @ ''-''
       @ hex_bytes u 8 2 @ ''-'' @ hex_bytes u 10 6"

section \<open>Row scanners\<close>

definition bind_scan :: "error + 'a \<Rightarrow> ('a \<Rightarrow> error + 'b) \<Rightarrow> error + 'b" where
  "bind_scan m f = (case m of Inl e \<Rightarrow> Inl e | Inr x \<Rightarrow> f x)"

text \<open>
  Modelled from the spec: the row scanners of the driver (\<^verbatim>\<open>res.Scan\<close>) and of the
  query-builder library (\<^verbatim>\<open>yscan.ScanRow\<close>) are not part of the sources. Following
  section 4.2, a cell scanned into a plain destination yields the value, unwrapped when
  it is an optional, and a null yields the zero value of the destination (the empty
  string for a string); a cell scanned into a pointer destination yields nil for a null
  and a pointer to the value otherwise; a cell of another type is a scan error.
\<close>

fun scan_int64 :: "ydb_value \<Rightarrow> error + int64" where
  "scan_int64 (Int64Value x) = Inr x"
| "scan_int64 (OptionalValue (Int64Value x)) = Inr x"
| "scan_int64 (NullValue T) = Inr 0"
| "scan_int64 v = Inl ScanError"

text \<open>An Int32 cell read into a Go \<^verbatim>\<open>int\<close> is sign-extended.\<close>

fun scan_int :: "ydb_value \<Rightarrow> error + go_int" where
  "scan_int (Int32Value x) = Inr (scast x)"
| "scan_int (OptionalValue (Int32Value x)) = Inr (scast x)"
| "scan_int (NullValue T) = Inr 0"
| "scan_int v = Inl ScanError"

fun scan_bool :: "ydb_value \<Rightarrow> error + bool" where
  "scan_bool (BoolValue b) = Inr b"
| "scan_bool (OptionalValue (BoolValue b)) = Inr b"
| "scan_bool (NullValue T) = Inr False"
| "scan_bool v = Inl ScanError"

fun scan_string :: "ydb_value \<Rightarrow> error + string" where
  "scan_string (UTF8Value s) = Inr s"
| "scan_string (OptionalValue (UTF8Value s)) = Inr s"
| "scan_string (NullValue T) = Inr ''''"
| "scan_string v = Inl ScanError"

fun scan_uint32 :: "ydb_value \<Rightarrow> error + uint32" where
  "scan_uint32 (DatetimeValue d) = Inr d"
| "scan_uint32 (OptionalValue (DatetimeValue d)) = Inr d"
| "scan_uint32 (NullValue T) = Inr 0"
| "scan_uint32 v = Inl ScanError"

definition time_of_micros :: "uint64 \<Rightarrow> gotime" where
  "time_of_micros us = Time (uint us div 1000000) (nat (uint us mod 1000000) * 1000)"

fun scan_time :: "ydb_value \<Rightarrow> error + gotime" where
  "scan_time (TimestampValue us) = Inr (time_of_micros us)"
| "scan_time (DatetimeValue d) = Inr (time_Unix (uint d))"
| "scan_time (OptionalValue (TimestampValue us)) = Inr (time_of_micros us)"
| "scan_time (OptionalValue (DatetimeValue d)) = Inr (time_Unix (uint d))"
| "scan_time (NullValue T) = Inr zero_time"
| "scan_time v = Inl ScanError"

text \<open>Destination \<^verbatim>\<open>**time.Time\<close>.\<close>

fun scan_opt_time :: "ydb_value \<Rightarrow> error + gotime option" where
  "scan_opt_time (NullValue T) = Inr None"
| "scan_opt_time v = bind_scan (scan_time v) (\<lambda>t. Inr (Some t))"

text \<open>Destination \<^verbatim>\<open>**uint32\<close>.\<close>

fun scan_opt_uint32 :: "ydb_value \<Rightarrow> error + uint32 option" where
  "scan_opt_uint32 (NullValue T) = Inr None"
| "scan_opt_uint32 v = bind_scan (scan_uint32 v) (\<lambda>d. Inr (Some d))"

text \<open>\<^verbatim>\<open>!res.NextResultSet(ctx) || !res.Next()\<close> is true when this is \<open>None\<close>.\<close>

definition first_row :: "result \<Rightarrow> bindings option" where
  "first_row res = (case res of [] \<Rightarrow> None | rs # _ \<Rightarrow> (case rs of [] \<Rightarrow> None | r # _ \<Rightarrow> Some r))"

text \<open>The cell a named scanner reads for a column.\<close>

definition named :: "bindings \<Rightarrow> string \<Rightarrow> ydb_value" where
  "named r k = (case map_of r k of Some v \<Rightarrow> v | None \<Rightarrow> NullValue TypeVoid)"

section \<open>Entity repositories (repository.go)\<close>

subsection \<open>Users\<close>

definition GetUserByTelegramChatID_query :: "int64 \<Rightarrow> statement" where
  "GetUserByTelegramChatID_query chatID =
     SELECT [''telegram_chat_id'', ''status'', ''created_at'', ''last_auth_success_at'', ''last_auth_failure_at'']
       ''users'' [(''telegram_chat_id'', Int64Value chatID)]"

text \<open>\<^verbatim>\<open>res.Scan(&user.TelegramChatID, &user.Status, &user.CreatedAt, &lastAuthSuccess, &lastAuthFailure)\<close>
  with the last two of type \<^verbatim>\<open>*time.Time\<close>.\<close>

definition Scan_User :: "bindings \<Rightarrow> error + User" where
  "Scan_User r =
     (case map snd r of
        [c1, c2, c3, c4, c5] \<Rightarrow>
          bind_scan (scan_int64 c1) (\<lambda>chat.
          bind_scan (scan_string c2) (\<lambda>status.
          bind_scan (scan_time c3) (\<lambda>created.
          bind_scan (scan_opt_time c4) (\<lambda>lastAuthSuccess.
          bind_scan (scan_opt_time c5) (\<lambda>lastAuthFailure.
            Inr \<lparr>user_TelegramChatID = chat, user_Status = status, user_CreatedAt = created,
                 user_LastAuthSuccessAt = lastAuthSuccess, user_LastAuthFailureAt = lastAuthFailure\<rparr>)))))
      | _ \<Rightarrow> Inl ScanError)"

definition GetUserByTelegramChatID :: "world \<Rightarrow> int64 \<Rightarrow> (User option \<times> error option) \<times> world" where
  "GetUserByTelegramChatID w chatID =
     (case GetConnection w of
        ((_, Some err), w1) \<Rightarrow> ((None, Some err), w1)
      | ((_, None), w1) \<Rightarrow>
          (case Table_Do w1 (GetUserByTelegramChatID_query chatID) of
             (Inl err, w2) \<Rightarrow> ((None, Some err), w2)
           | (Inr res, w2) \<Rightarrow>
               (case first_row res of
                  None \<Rightarrow> ((None, Some ErrUserNotFound), w2)
                | Some r \<Rightarrow>
                    (case Scan_User r of
                       Inl err \<Rightarrow> ((None, Some err), w2)
                     | Inr user \<Rightarrow> ((Some user, None), w2)))))"

definition UpsertUser_params :: "User \<Rightarrow> bindings" where
  "UpsertUser_params user =
       [(''telegram_chat_id'', Int64Value (user_TelegramChatID user)),
        (''status'', UTF8Value (user_Status user)),
        (''created_at'', TimestampValueFromTime (user_CreatedAt user)),
        (''last_auth_success_at'',
           OptionalValueOf TypeTimestamp (map_option TimestampValueFromTime (user_LastAuthSuccessAt user))),
        (''last_auth_failure_at'',
           OptionalValueOf TypeTimestamp (map_option TimestampValueFromTime (user_LastAuthFailureAt user)))]"

definition UpsertUser_query :: "User \<Rightarrow> statement" where
  "UpsertUser_query user = UPSERT ''users'' (UpsertUser_params user)"

text \<open>The functions that write through a pointer return the entity as the caller sees it afterwards.\<close>

definition UpsertUser :: "world \<Rightarrow> User \<Rightarrow> (User \<times> error option) \<times> world" where
  "UpsertUser w user =
     (case GetConnection w of
        ((_, Some err), w1) \<Rightarrow> ((user, Some err), w1)
      | ((_, None), w1) \<Rightarrow>
          (let user1 = (if IsZero (user_CreatedAt user) then user\<lparr>user_CreatedAt := now w1\<rparr> else user)
           in case Table_Do w1 (UpsertUser_query user1) of
                (Inl err, w2) \<Rightarrow> ((user1, Some err), w2)
              | (Inr _, w2) \<Rightarrow> ((user1, None), w2)))"

definition UpdateUserStatus_query :: "int64 \<Rightarrow> string \<Rightarrow> statement" where
  "UpdateUserStatus_query chatID status =
     UPDATE ''users'' [(''status'', UTF8Value status)] [(''telegram_chat_id'', Int64Value chatID)]"

definition UpdateUserStatus :: "world \<Rightarrow> int64 \<Rightarrow> string \<Rightarrow> error option \<times> world" where
  "UpdateUserStatus w chatID status =
     (case GetConnection w of
        ((_, Some err), w1) \<Rightarrow> (Some err, w1)
      | ((_, None), w1) \<Rightarrow>
          (case Table_Do w1 (UpdateUserStatus_query chatID status) of
             (Inl err, w2) \<Rightarrow> (Some err, w2)
           | (Inr _, w2) \<Rightarrow> (None, w2)))"

subsection \<open>Tokens\<close>

definition GetUserTokens_query :: "int64 \<Rightarrow> statement" where
  "GetUserTokens_query chatID =
     SELECT [''telegram_chat_id'', ''access_token'', ''refresh_token'', ''user_id'', ''datadome'',
             ''app_token'', ''created_at'', ''updated_at'']
       ''user_tokens'' [(''telegram_chat_id'', Int64Value chatID)]"

definition Scan_UserTokens :: "bindings \<Rightarrow> error + UserTokens" where
  "Scan_UserTokens r =
     (case map snd r of
        [c1, c2, c3, c4, c5, c6, c7, c8] \<Rightarrow>
          bind_scan (scan_int64 c1) (\<lambda>chat.
          bind_scan (scan_string c2) (\<lambda>access.
          bind_scan (scan_string c3) (\<lambda>refresh.
          bind_scan (scan_string c4) (\<lambda>uid.
          bind_scan (scan_string c5) (\<lambda>datadome.
          bind_scan (scan_string c6) (\<lambda>appToken.
          bind_scan (scan_time c7) (\<lambda>created.
          bind_scan (scan_time c8) (\<lambda>updated.
            Inr \<lparr>tok_TelegramChatID = chat, tok_AccessToken = access, tok_RefreshToken = refresh,
                 tok_UserID = uid, tok_Datadome = datadome, tok_AppToken = appToken,
                 tok_CreatedAt = created, tok_UpdatedAt = updated\<rparr>))))))))
      | _ \<Rightarrow> Inl ScanError)"

definition GetUserTokens :: "world \<Rightarrow> int64 \<Rightarrow> (UserTokens option \<times> error option) \<times> world" where
  "GetUserTokens w chatID =
     (case GetConnection w of
        ((_, Some err), w1) \<Rightarrow> ((None, Some err), w1)
      | ((_, None), w1) \<Rightarrow>
          (case Table_Do w1 (GetUserTokens_query chatID) of
             (Inl err, w2) \<Rightarrow> ((None, Some err), w2)
           | (Inr res, w2) \<Rightarrow>
               (case first_row res of
                  None \<Rightarrow> ((None, Some ErrTokensNotFound), w2)
                | Some r \<Rightarrow>
                    (case Scan_UserTokens r of
                       Inl err \<Rightarrow> ((None, Some err), w2)
                     | Inr tokens \<Rightarrow> ((Some tokens, None), w2)))))"

definition StoreUserTokens_params :: "UserTokens \<Rightarrow> bindings" where
  "StoreUserTokens_params tokens =
     (let datadome = (if tok_Datadome tokens \<noteq> '''' then Some (UTF8Value (tok_Datadome tokens)) else None);
          appToken = (if tok_AppToken tokens \<noteq> '''' then Some (UTF8Value (tok_AppToken tokens)) else None)
      in [(''telegram_chat_id'', Int64Value (tok_TelegramChatID tokens)),
            (''access_token'', UTF8Value (tok_AccessToken tokens)),
            (''refresh_token'', UTF8Value (tok_RefreshToken tokens)),
            (''user_id'', UTF8Value (tok_UserID tokens)),
            (''datadome'', OptionalValueOf TypeUTF8 datadome),
            (''app_token'', OptionalValueOf TypeUTF8 appToken),
            (''created_at'', TimestampValueFromTime (tok_CreatedAt tokens)),
            (''updated_at'', TimestampValueFromTime (tok_UpdatedAt tokens))])"

definition StoreUserTokens_query :: "UserTokens \<Rightarrow> statement" where
  "StoreUserTokens_query tokens = UPSERT ''user_tokens'' (StoreUserTokens_params tokens)"

definition StoreUserTokens :: "world \<Rightarrow> UserTokens \<Rightarrow> (UserTokens \<times> error option) \<times> world" where
  "StoreUserTokens w tokens =
     (case GetConnection w of
        ((_, Some err), w1) \<Rightarrow> ((tokens, Some err), w1)
      | ((_, None), w1) \<Rightarrow>
          (let tokens1 = (if IsZero (tok_CreatedAt tokens) then tokens\<lparr>tok_CreatedAt := now w1\<rparr> else tokens);
               tokens2 = tokens1\<lparr>tok_UpdatedAt := now w1\<rparr>
           in case Table_Do w1 (StoreUserTokens_query tokens2) of
                (Inl err, w2) \<Rightarrow> ((tokens2, Some err), w2)
              | (Inr _, w2) \<Rightarrow> ((tokens2, None), w2)))"

subsection \<open>Subscriptions\<close>

definition CreateSearchSubscription_params :: "SearchSubscription \<Rightarrow> bindings" where
  "CreateSearchSubscription_params sub =
       [(''id'', UTF8Value (sub_ID sub)),
        (''telegram_chat_id'', Int64Value (sub_TelegramChatID sub)),
        (''from_place_id'', UTF8Value (sub_FromPlaceID sub)),
        (''from_place_name'', UTF8Value (sub_FromPlaceName sub)),
        (''to_place_id'', UTF8Value (sub_ToPlaceID sub)),
        (''to_place_name'', UTF8Value (sub_ToPlaceName sub)),
        (''departure_date'', UTF8Value (sub_DepartureDate sub)),
        (''requested_seats'', Int32Value (ucast (sub_RequestedSeats sub))),
        (''is_active'', BoolValue (sub_IsActive sub)),
        (''created_at'', TimestampValueFromTime (sub_CreatedAt sub))]"

definition CreateSearchSubscription_query :: "SearchSubscription \<Rightarrow> statement" where
  "CreateSearchSubscription_query sub = INSERT ''search_subscriptions'' (CreateSearchSubscription_params sub)"

definition CreateSearchSubscription ::
  "world \<Rightarrow> SearchSubscription \<Rightarrow> (SearchSubscription \<times> error option) \<times> world" where
  "CreateSearchSubscription w sub =
     (case GetConnection w of
        ((_, Some err), w1) \<Rightarrow> ((sub, Some err), w1)
      | ((_, None), w1) \<Rightarrow>
          (let sub1 = (if sub_ID sub = '''' then sub\<lparr>sub_ID := uuid_String (uuid_New w1)\<rparr> else sub);
               sub2 = sub1\<lparr>sub_CreatedAt := now w1\<rparr>;
               sub3 = sub2\<lparr>sub_IsActive := True\<rparr>
           in case Table_Do w1 (CreateSearchSubscription_query sub3) of
                (Inl err, w2) \<Rightarrow> ((sub3, Some err), w2)
              | (Inr _, w2) \<Rightarrow> ((sub3, None), w2)))"

subsection \<open>Notifications\<close>

definition CreateNotification_params :: "Notification \<Rightarrow> bindings" where
  "CreateNotification_params notif =
       [(''id'', UTF8Value (notif_ID notif)),
        (''telegram_chat_id'', Int64Value (notif_TelegramChatID notif)),
        (''subscription_id'', UTF8Value (notif_SubscriptionID notif)),
        (''trip_id'', UTF8Value (notif_TripID notif)),
        (''telegram_message_id'', Int32Value (ucast (notif_TelegramMessageID notif))),
        (''status'', UTF8Value (notif_Status notif)),
        (''created_at'', TimestampValueFromTime (notif_CreatedAt notif))]"

definition CreateNotification_query :: "Notification \<Rightarrow> statement" where
  "CreateNotification_query notif = INSERT ''notifications'' (CreateNotification_params notif)"

definition CreateNotification :: "world \<Rightarrow> Notification \<Rightarrow> (Notification \<times> error option) \<times> world" where
  "CreateNotification w notif =
     (case GetConnection w of
        ((_, Some err), w1) \<Rightarrow> ((notif, Some err), w1)
      | ((_, None), w1) \<Rightarrow>
          (let notif1 = (if notif_ID notif = '''' then notif\<lparr>notif_ID := uuid_String (uuid_New w1)\<rparr> else notif);
               notif2 = notif1\<lparr>notif_CreatedAt := now w1\<rparr>;
               notif3 = notif2\<lparr>notif_Status := ''sent''\<rparr>
           in case Table_Do w1 (CreateNotification_query notif3) of
                (Inl err, w2) \<Rightarrow> ((notif3, Some err), w2)
              | (Inr _, w2) \<Rightarrow> ((notif3, None), w2)))"

definition GetNotificationByTrip_query :: "int64 \<Rightarrow> string \<Rightarrow> string \<Rightarrow> statement" where
  "GetNotificationByTrip_query chatID subID tripID =
     SELECT [''id'', ''telegram_chat_id'', ''subscription_id'', ''trip_id'', ''telegram_message_id'',
             ''status'', ''created_at'']
       ''notifications''
       [(''telegram_chat_id'', Int64Value chatID), (''subscription_id'', UTF8Value subID),
        (''trip_id'', UTF8Value tripID)]"

definition Scan_Notification :: "bindings \<Rightarrow> error + Notification" where
  "Scan_Notification r =
     (case map snd r of
        [c1, c2, c3, c4, c5, c6, c7] \<Rightarrow>
          bind_scan (scan_string c1) (\<lambda>ident.
          bind_scan (scan_int64 c2) (\<lambda>chat.
          bind_scan (scan_string c3) (\<lambda>subID.
          bind_scan (scan_string c4) (\<lambda>tripID.
          bind_scan (scan_int c5) (\<lambda>messageID.
          bind_scan (scan_string c6) (\<lambda>status.
          bind_scan (scan_time c7) (\<lambda>created.
            Inr \<lparr>notif_ID = ident, notif_TelegramChatID = chat, notif_SubscriptionID = subID,
                 notif_TripID = tripID, notif_TelegramMessageID = messageID, notif_Status = status,
                 notif_CreatedAt = created\<rparr>)))))))
      | _ \<Rightarrow> Inl ScanError)"

definition GetNotificationByTrip ::
  "world \<Rightarrow> int64 \<Rightarrow> string \<Rightarrow> string \<Rightarrow> (Notification option \<times> error option) \<times> world" where
  "GetNotificationByTrip w chatID subID tripID =
     (case GetConnection w of
        ((_, Some err), w1) \<Rightarrow> ((None, Some err), w1)
      | ((_, None), w1) \<Rightarrow>
          (case Table_Do w1 (GetNotificationByTrip_query chatID subID tripID) of
             (Inl err, w2) \<Rightarrow> ((None, Some err), w2)
           | (Inr res, w2) \<Rightarrow>
               (case first_row res of
                  None \<Rightarrow> ((None, None), w2)
                | Some r \<Rightarrow>
                    (case Scan_Notification r of
                       Inl err \<Rightarrow> ((None, Some err), w2)
                     | Inr notif \<Rightarrow> ((Some notif, None), w2)))))"

section \<open>Entity repositories written against the package helpers (interface.go)\<close>

text \<open>
  interface.go holds a second implementation of the same operations, on the store's
  Datetime type (whole seconds in an unsigned 32-bit integer). Its functions carry the
  suffix \<open>_iface\<close> here, since both implementations use the same names.
\<close>

definition optionalDatetime :: "uint32 option \<Rightarrow> ydb_value" where
  "optionalDatetime ts = (case ts of None \<Rightarrow> NullValue TypeDatetime | Some t \<Rightarrow> OptionalValue (DatetimeValue t))"

definition optionalText :: "string option \<Rightarrow> ydb_value" where
  "optionalText s = (case s of None \<Rightarrow> NullValue TypeText | Some x \<Rightarrow> OptionalValue (TextValue x))"

text \<open>\<^verbatim>\<open>uint32(t.Unix())\<close>: the conversion keeps the low 32 bits.\<close>

definition unix_uint32 :: "gotime \<Rightarrow> uint32" where
  "unix_uint32 t = word_of_int (Unix t)"

text \<open>\<^verbatim>\<open>time.Unix(int64(ts), 0)\<close>.\<close>

definition time_of_uint32 :: "uint32 \<Rightarrow> gotime" where
  "time_of_uint32 ts = time_Unix (uint ts)"

text \<open>
  The codec of an optional timestamp, as UpsertUser writes it (lines 193 to 208) and
  GetUserByTelegramChatID reads it back (lines 159 to 171).
\<close>

definition encode_optional_time :: "gotime option \<Rightarrow> ydb_value" where
  "encode_optional_time t = optionalDatetime (map_option unix_uint32 t)"

definition decode_optional_time :: "ydb_value \<Rightarrow> error + gotime option" where
  "decode_optional_time v = bind_scan (scan_opt_uint32 v) (\<lambda>p. Inr (map_option time_of_uint32 p))"

text \<open>
  Modelled from the spec: the package helpers \<^verbatim>\<open>Query\<close> and \<^verbatim>\<open>Exec\<close> (and
  \<^verbatim>\<open>TablePathPrefix\<close>, a prefix of the query text) are not part of the sources.
  Following section 4.3 they execute the statement through the connection provider and
  return the result or the error of the execution.
\<close>

definition Query :: "world \<Rightarrow> statement \<Rightarrow> (error + result) \<times> world" where
  "Query w q =
     (case GetConnection w of
        ((_, Some err), w1) \<Rightarrow> (Inl err, w1)
      | ((_, None), w1) \<Rightarrow> Table_Do w1 q)"

definition Exec :: "world \<Rightarrow> statement \<Rightarrow> error option \<times> world" where
  "Exec w q = (case Query w q of (Inl err, w1) \<Rightarrow> (Some err, w1) | (Inr _, w1) \<Rightarrow> (None, w1))"

text \<open>\<^verbatim>\<open>res.NextRow()\<close> on a fresh result: its first row, if it has one.\<close>

definition NextRow :: "result \<Rightarrow> bindings option" where
  "NextRow res = (case concat res of [] \<Rightarrow> None | r # _ \<Rightarrow> Some r)"

subsection \<open>Users\<close>

definition Scan_User_iface :: "bindings \<Rightarrow> error + User" where
  "Scan_User_iface r =
     (case map snd r of
        [c1, c2, c3, c4, c5] \<Rightarrow>
          bind_scan (scan_int64 c1) (\<lambda>chat.
          bind_scan (scan_string c2) (\<lambda>status.
          bind_scan (scan_time c3) (\<lambda>created.
          bind_scan (decode_optional_time c4) (\<lambda>lastAuthSuccess.
          bind_scan (decode_optional_time c5) (\<lambda>lastAuthFailure.
            Inr \<lparr>user_TelegramChatID = chat, user_Status = status, user_CreatedAt = created,
                 user_LastAuthSuccessAt = lastAuthSuccess, user_LastAuthFailureAt = lastAuthFailure\<rparr>)))))
      | _ \<Rightarrow> Inl ScanError)"

definition GetUserByTelegramChatID_iface :: "world \<Rightarrow> int64 \<Rightarrow> (User option \<times> error option) \<times> world" where
  "GetUserByTelegramChatID_iface w telegramChatID =
     (case Query w (GetUserByTelegramChatID_query telegramChatID) of
        (Inl err, w1) \<Rightarrow> ((None, Some (Errorf ''failed to query user by telegram_chat_id %d'' err)), w1)
      | (Inr res, w1) \<Rightarrow>
          (case NextRow res of
             Some r \<Rightarrow>
               (case Scan_User_iface r of
                  Inl err \<Rightarrow> ((None, Some (Errorf ''failed to scan user'' err)), w1)
                | Inr user \<Rightarrow> ((Some user, None), w1))
           | None \<Rightarrow> ((None, Some ErrUserNotFound), w1)))"

definition UpsertUser_iface_params :: "User \<Rightarrow> bindings" where
  "UpsertUser_iface_params user =
       [(''telegram_chat_id'', Int64Value (user_TelegramChatID user)),
        (''status'', TextValue (user_Status user)),
        (''created_at'', DatetimeValue (unix_uint32 (user_CreatedAt user))),
        (''last_auth_success_at'', encode_optional_time (user_LastAuthSuccessAt user)),
        (''last_auth_failure_at'', encode_optional_time (user_LastAuthFailureAt user))]"

definition UpsertUser_iface_query :: "User \<Rightarrow> statement" where
  "UpsertUser_iface_query user = UPSERT ''users'' (UpsertUser_iface_params user)"

definition UpsertUser_iface :: "world \<Rightarrow> User \<Rightarrow> error option \<times> world" where
  "UpsertUser_iface w user = Exec w (UpsertUser_iface_query user)"

definition UpdateUserStatus_iface :: "world \<Rightarrow> int64 \<Rightarrow> string \<Rightarrow> error option \<times> world" where
  "UpdateUserStatus_iface w chatID status =
     Exec w (UPDATE ''users'' [(''status'', TextValue status)] [(''telegram_chat_id'', Int64Value chatID)])"

subsection \<open>Tokens\<close>

text \<open>\<^verbatim>\<open>yscan.ScanRow(&tokens, res)\<close> fills each field from the column of its name.\<close>

definition ScanRow_UserTokens :: "bindings \<Rightarrow> error + UserTokens" where
  "ScanRow_UserTokens r =
     bind_scan (scan_int64 (named r ''telegram_chat_id'')) (\<lambda>chat.
     bind_scan (scan_string (named r ''access_token'')) (\<lambda>access.
     bind_scan (scan_string (named r ''refresh_token'')) (\<lambda>refresh.
     bind_scan (scan_string (named r ''user_id'')) (\<lambda>uid.
     bind_scan (scan_string (named r ''datadome'')) (\<lambda>datadome.
     bind_scan (scan_string (named r ''app_token'')) (\<lambda>appToken.
     bind_scan (scan_time (named r ''created_at'')) (\<lambda>created.
     bind_scan (scan_time (named r ''updated_at'')) (\<lambda>updated.
       Inr \<lparr>tok_TelegramChatID = chat, tok_AccessToken = access, tok_RefreshToken = refresh,
            tok_UserID = uid, tok_Datadome = datadome, tok_AppToken = appToken,
            tok_CreatedAt = created, tok_UpdatedAt = updated\<rparr>))))))))"

definition GetUserTokens_iface :: "world \<Rightarrow> int64 \<Rightarrow> (UserTokens option \<times> error option) \<times> world" where
  "GetUserTokens_iface w chatID =
     (case Query w (GetUserTokens_query chatID) of
        (Inl err, w1) \<Rightarrow> ((None, Some (Errorf ''failed to query user tokens'' err)), w1)
      | (Inr res, w1) \<Rightarrow>
          (case NextRow res of
             Some r \<Rightarrow>
               (case ScanRow_UserTokens r of
                  Inl err \<Rightarrow> ((None, Some (Errorf ''failed to scan user tokens'' err)), w1)
                | Inr tokens \<Rightarrow> ((Some tokens, None), w1))
           | None \<Rightarrow> ((None, Some ErrTokensNotFound), w1)))"

definition StoreUserTokens_iface_params :: "UserTokens \<Rightarrow> bindings" where
  "StoreUserTokens_iface_params tokens =
     (let datadome = (if tok_Datadome tokens \<noteq> '''' then Some (tok_Datadome tokens) else None);
          appToken = (if tok_AppToken tokens \<noteq> '''' then Some (tok_AppToken tokens) else None)
      in [(''telegram_chat_id'', Int64Value (tok_TelegramChatID tokens)),
            (''access_token'', TextValue (tok_AccessToken tokens)),
            (''refresh_token'', TextValue (tok_RefreshToken tokens)),
            (''user_id'', TextValue (tok_UserID tokens)),
            (''datadome'', optionalText datadome),
            (''app_token'', optionalText appToken),
            (''created_at'', DatetimeValue (unix_uint32 (tok_CreatedAt tokens))),
            (''updated_at'', DatetimeValue (unix_uint32 (tok_UpdatedAt tokens)))])"

definition StoreUserTokens_iface_query :: "UserTokens \<Rightarrow> statement" where
  "StoreUserTokens_iface_query tokens = UPSERT ''user_tokens'' (StoreUserTokens_iface_params tokens)"

definition StoreUserTokens_iface :: "world \<Rightarrow> UserTokens \<Rightarrow> error option \<times> world" where
  "StoreUserTokens_iface w tokens = Exec w (StoreUserTokens_iface_query tokens)"

subsection \<open>Subscriptions\<close>

definition CreateSearchSubscription_iface_params :: "SearchSubscription \<Rightarrow> bindings" where
  "CreateSearchSubscription_iface_params sub =
       [(''id'', TextValue (sub_ID sub)),
        (''telegram_chat_id'', Int64Value (sub_TelegramChatID sub)),
        (''from_place_id'', TextValue (sub_FromPlaceID sub)),
        (''from_place_name'', TextValue (sub_FromPlaceName sub)),
        (''to_place_id'', TextValue (sub_ToPlaceID sub)),
        (''to_place_name'', TextValue (sub_ToPlaceName sub)),
        (''departure_date'', TextValue (sub_DepartureDate sub)),
        (''requested_seats'', Int32Value (ucast (sub_RequestedSeats sub))),
        (''is_active'', BoolValue (sub_IsActive sub)),
        (''created_at'', DatetimeValue (unix_uint32 (sub_CreatedAt sub)))]"

definition CreateSearchSubscription_iface_query :: "SearchSubscription \<Rightarrow> statement" where
  "CreateSearchSubscription_iface_query sub = INSERT ''search_subscriptions'' (CreateSearchSubscription_iface_params sub)"

definition CreateSearchSubscription_iface :: "world \<Rightarrow> SearchSubscription \<Rightarrow> error option \<times> world" where
  "CreateSearchSubscription_iface w sub = Exec w (CreateSearchSubscription_iface_query sub)"

subsection \<open>Notifications\<close>

definition CreateNotification_iface_params :: "Notification \<Rightarrow> bindings" where
  "CreateNotification_iface_params notif =
       [(''id'', TextValue (notif_ID notif)),
        (''telegram_chat_id'', Int64Value (notif_TelegramChatID notif)),
        (''subscription_id'', TextValue (notif_SubscriptionID notif)),
        (''trip_id'', TextValue (notif_TripID notif)),
        (''telegram_message_id'', Int32Value (ucast (notif_TelegramMessageID notif))),
        (''status'', TextValue (notif_Status notif)),
        (''created_at'', DatetimeValue (unix_uint32 (notif_CreatedAt notif)))]"

definition CreateNotification_iface_query :: "Notification \<Rightarrow> statement" where
  "CreateNotification_iface_query notif = INSERT ''notifications'' (CreateNotification_iface_params notif)"

definition CreateNotification_iface :: "world \<Rightarrow> Notification \<Rightarrow> error option \<times> world" where
  "CreateNotification_iface w notif = Exec w (CreateNotification_iface_query notif)"

text \<open>\<^verbatim>\<open>createdAt\<close> is scanned into a \<^verbatim>\<open>uint32\<close> and converted with \<^verbatim>\<open>time.Unix\<close>.\<close>

definition Scan_Notification_iface :: "bindings \<Rightarrow> error + Notification" where
  "Scan_Notification_iface r =
     (case map snd r of
        [c1, c2, c3, c4, c5, c6, c7] \<Rightarrow>
          bind_scan (scan_string c1) (\<lambda>ident.
          bind_scan (scan_int64 c2) (\<lambda>chat.
          bind_scan (scan_string c3) (\<lambda>subID.
          bind_scan (scan_string c4) (\<lambda>tripID.
          bind_scan (scan_int c5) (\<lambda>messageID.
          bind_scan (scan_string c6) (\<lambda>status.
          bind_scan (scan_uint32 c7) (\<lambda>createdAt.
            Inr \<lparr>notif_ID = ident, notif_TelegramChatID = chat, notif_SubscriptionID = subID,
                 notif_TripID = tripID, notif_TelegramMessageID = messageID, notif_Status = status,
                 notif_CreatedAt = time_of_uint32 createdAt\<rparr>)))))))
      | _ \<Rightarrow> Inl ScanError)"

definition GetNotificationByTrip_iface ::
  "world \<Rightarrow> int64 \<Rightarrow> string \<Rightarrow> string \<Rightarrow> (Notification option \<times> error option) \<times> world" where
  "GetNotificationByTrip_iface w chatID subID tripID =
     (case Query w (GetNotificationByTrip_query chatID subID tripID) of
        (Inl err, w1) \<Rightarrow> ((None, Some (Errorf ''failed to query notification'' err)), w1)
      | (Inr res, w1) \<Rightarrow>
          (case NextRow res of
             Some r \<Rightarrow>
               (case Scan_Notification_iface r of
                  Inl err \<Rightarrow> ((None, Some (Errorf ''failed to scan notification'' err)), w1)
                | Inr notif \<Rightarrow> ((Some notif, None), w1))
           | None \<Rightarrow> ((None, None), w1)))"

section \<open>Transactional executor (YDBClient.DoTx)\<close>

datatype tx_event = Execute string | BeginTransaction | Call | Commit | Rollback

text \<open>How a Go call ends: it returns, or it panics and unwinds through its callers.\<close>

datatype 'a outcome = Returns 'a | Panics string

text \<open>
  A session of the store: whether beginning and committing a transaction fail on it,
  the calls made on it so far, and the data the unit of work acts on.
\<close>

record 'd session =
  begin_error :: "error option"
  commit_error :: "error option"
  calls :: "tx_event list"
  data :: 'd

definition called :: "tx_event \<Rightarrow> 'd session \<Rightarrow> 'd session" where
  "called e s = s\<lparr>calls := calls s @ [e]\<rparr>"

text \<open>\<^verbatim>\<open>defer tx.Rollback(ctx)\<close>: the rollback runs when the rest of the function
  returns and when it panics.\<close>

definition defer_Rollback ::
  "('d session \<Rightarrow> 'a outcome \<times> 'd session) \<Rightarrow> 'd session \<Rightarrow> 'a outcome \<times> 'd session" where
  "defer_Rollback body s = (case body s of (r, s1) \<Rightarrow> (r, called Rollback s1))"

text \<open>The unit of work \<open>fn\<close> acts on the data of the transaction and returns an error or nil, or panics.\<close>

definition invoke :: "('d \<Rightarrow> error option outcome \<times> 'd) \<Rightarrow> 'd session \<Rightarrow> error option outcome \<times> 'd session" where
  "invoke fn s = (case fn (data s) of (r, d) \<Rightarrow> (r, (called Call s)\<lparr>data := d\<rparr>))"

definition DoTx ::
  "('d \<Rightarrow> error option outcome \<times> 'd) \<Rightarrow> 'd session \<Rightarrow> error option outcome \<times> 'd session" where
  "DoTx fn s =
     (let s1 = called (Execute '''') s;
          s2 = called BeginTransaction s1
      in case begin_error s2 of
           Some err \<Rightarrow> (Returns (Some err), s2)
         | None \<Rightarrow>
             defer_Rollback
               (\<lambda>s3. case invoke fn s3 of
                        (Panics p, s4) \<Rightarrow> (Panics p, s4)
                      | (Returns (Some err), s4) \<Rightarrow> (Returns (Some err), s4)
                      | (Returns None, s4) \<Rightarrow> (Returns (commit_error s4), called Commit s4))
               s2)"

section \<open>Telegram helpers (package telegram)\<close>

datatype panic = SliceBoundsOutOfRange nat nat

text \<open>The three non-ASCII literals of the format, as their UTF-8 bytes.\<close>

definition check_mark :: string where
  "check_mark = [CHR 0xE2, CHR 0x9C, CHR 0x85]"

definition cross_mark :: string where
  "cross_mark = [CHR 0xE2, CHR 0x9D, CHR 0x8C]"

definition right_arrow :: string where
  "right_arrow = [CHR 0xE2, CHR 0x86, CHR 0x92]"

text \<open>
  \<^verbatim>\<open>id[:8]\<close> on a Go string: the first 8 bytes, and a run-time panic when the
  string is shorter than the upper bound.
\<close>

definition slice_to :: "string \<Rightarrow> nat \<Rightarrow> panic + string" where
  "slice_to s n = (if n \<le> length s then Inr (take n s) else Inl (SliceBoundsOutOfRange n (length s)))"

definition FormatSubscriptionMessage ::
  "string \<Rightarrow> string \<Rightarrow> string \<Rightarrow> string \<Rightarrow> bool \<Rightarrow> panic + string" where
  "FormatSubscriptionMessage ident from to date isActive =
     (let status = (if \<not> isActive then cross_mark @ '' Inactive'' else check_mark @ '' Active'')
      in case slice_to ident 8 of
           Inl p \<Rightarrow> Inl p
         | Inr short \<Rightarrow>
             Inr (''*Subscription #'' @ short @ ''*'' @ [CHR 0x0A]
                  @ from @ '' '' @ right_arrow @ '' '' @ to @ [CHR 0x0A]
                  @ ''Date: '' @ date @ [CHR 0x0A]
                  @ ''Status: '' @ status))"

section \<open>Scenarios\<close>

text \<open>
  Later calls of GetConnection in the same process, each after the environment has
  changed to the given endpoint, database and outcome of opening a connection.
\<close>

fun GetConnection_repeated ::
  "(string \<times> string \<times> string option) list \<Rightarrow> world \<Rightarrow> (driver option \<times> error option) list" where
  "GetConnection_repeated [] w = []"
| "GetConnection_repeated ((e, d, opn) # envs) w =
     (case GetConnection (w\<lparr>YDB_ENDPOINT := e, YDB_DATABASE := d, open_error := opn\<rparr>) of
        (r, w1) \<Rightarrow> r # GetConnection_repeated envs w1)"

text \<open>A process at its start: both settings present, no connection yet, an empty store.\<close>

definition process_start :: world where
  "process_start =
     \<lparr>YDB_ENDPOINT = ''grpcs://ydb.example:2135'', YDB_DATABASE = ''/local'',
      open_error = None, execute_error = None, now = Time 1700000000 123456789,
      uuid_New = 0x0123456789abcdef0123456789abcdef, once_done = False, db = None, initErr = None,
      ydb = (\<lambda>t. [])\<rparr>"

text \<open>A session on which a transaction can begin and commit.\<close>

definition tx_session :: "nat session" where
  "tx_session = \<lparr>begin_error = None, commit_error = None, calls = [], data = 0\<rparr>"

section \<open>Reachable connection states and row selection\<close>

text \<open>
  The errors GetConnection can have cached: the configuration error, or the error of
  opening the connection, which comes from the driver.
\<close>

definition is_init_error :: "error \<Rightarrow> bool" where
  "is_init_error e = (case e of ErrMissingConfig \<Rightarrow> True | External m \<Rightarrow> True | _ \<Rightarrow> False)"

text \<open>The invariant of the connection provider's variables: it holds at process start,
  GetConnection keeps it, and executing a statement changes the store only.\<close>

definition conn_inv :: "world \<Rightarrow> bool" where
  "conn_inv w = (once_done w \<longrightarrow> (case initErr w of None \<Rightarrow> True | Some e \<Rightarrow> is_init_error e))"

text \<open>The rows of a table that a lookup by chat identity selects, in store order.\<close>

definition chat_rows :: "world \<Rightarrow> string \<Rightarrow> int64 \<Rightarrow> row list" where
  "chat_rows w t chatID = filter (matches [(''telegram_chat_id'', Int64Value chatID)]) (ydb w t)"

text \<open>A user as first stored, and the store after the upsert of either implementation.\<close>

definition new_user :: User where
  "new_user = \<lparr>user_TelegramChatID = 12345, user_Status = ''unauthenticated'',
                user_CreatedAt = Time 1700000000 0, user_LastAuthSuccessAt = None,
                user_LastAuthFailureAt = Some (Time 1700000100 0)\<rparr>"

definition with_user :: world where
  "with_user = snd (UpsertUser process_start new_user)"

definition with_user_iface :: world where
  "with_user_iface = snd (UpsertUser_iface process_start new_user)"

text \<open>The subscription of the specification's scenario, as a caller builds it: no id, not active, no creation time.\<close>

definition paris_lyon :: SearchSubscription where
  "paris_lyon = \<lparr>sub_ID = '''', sub_TelegramChatID = 12345, sub_FromPlaceID = ''paris'',
                  sub_FromPlaceName = ''Paris'', sub_ToPlaceID = ''lyon'', sub_ToPlaceName = ''Lyon'',
                  sub_DepartureDate = ''2024-06-01'', sub_RequestedSeats = 2, sub_IsActive = False,
                  sub_CreatedAt = zero_time, sub_LastCheckedAt = None\<rparr>"

text \<open>Tokens as a caller passes them again after a while: no anti-bot cookie, creation time
  never set, an old update time; and the store after either implementation stored them.\<close>

definition stale_tokens :: UserTokens where
  "stale_tokens = \<lparr>tok_TelegramChatID = 12345, tok_AccessToken = ''access'', tok_RefreshToken = ''refresh'',
                    tok_UserID = ''u-1'', tok_Datadome = '''', tok_AppToken = ''app'',
                    tok_CreatedAt = zero_time, tok_UpdatedAt = Time 1600000000 0\<rparr>"

definition with_tokens :: world where
  "with_tokens = snd (StoreUserTokens process_start stale_tokens)"

definition with_tokens_iface :: world where
  "with_tokens_iface = snd (StoreUserTokens_iface process_start stale_tokens)"

text \<open>The rows the deduplication check selects, in store order.\<close>

definition trip_rows :: "world \<Rightarrow> int64 \<Rightarrow> string \<Rightarrow> string \<Rightarrow> row list" where
  "trip_rows w chatID subID tripID =
     filter (matches [(''telegram_chat_id'', Int64Value chatID), (''subscription_id'', UTF8Value subID),
                      (''trip_id'', UTF8Value tripID)]) (ydb w ''notifications'')"

text \<open>The notification of the specification's scenario, as a caller builds it.\<close>

definition trip_99 :: Notification where
  "trip_99 = \<lparr>notif_ID = '''', notif_TelegramChatID = 12345, notif_SubscriptionID = ''sub-1'',
               notif_TripID = ''trip-99'', notif_TelegramMessageID = 7, notif_Status = '''',
               notif_CreatedAt = zero_time\<rparr>"

section \<open>Properties\<close>

text \<open>
  C10. FormatSubscriptionMessage returns a formatted string exactly for ids of at least
  8 bytes (the header then shows the first 8 bytes of the id); for every shorter id the
  slice expression panics with an out-of-range error.
\<close>

theorem FormatSubscriptionMessage_total_iff:
  "(8 \<le> length ident \<longrightarrow>
      (\<exists>rest. FormatSubscriptionMessage ident from to date isActive
                = Inr (''*Subscription #'' @ take 8 ident @ rest)))
   \<and> (length ident < 8 \<longrightarrow>
      FormatSubscriptionMessage ident from to date isActive
        = Inl (SliceBoundsOutOfRange 8 (length ident)))"
  by (simp add: FormatSubscriptionMessage_def slice_to_def Let_def)

theorem FormatSubscriptionMessage_total_iff_witness:
  "FormatSubscriptionMessage ''0123456789'' ''Paris'' ''Lyon'' ''2024-06-01'' True
     = Inr (''*Subscription #01234567*'' @ [CHR 0x0A] @ ''Paris '' @ right_arrow @ '' Lyon''
            @ [CHR 0x0A] @ ''Date: 2024-06-01'' @ [CHR 0x0A] @ ''Status: '' @ check_mark @ '' Active'')
   \<and> FormatSubscriptionMessage ''abc'' ''Paris'' ''Lyon'' ''2024-06-01'' True
     = Inl (SliceBoundsOutOfRange 8 3)"
  using FormatSubscriptionMessage_total_iff [of "''0123456789''" "''Paris''" "''Lyon''" "''2024-06-01''" True]
        FormatSubscriptionMessage_total_iff [of "''abc''" "''Paris''" "''Lyon''" "''2024-06-01''" True]
  by (simp add: FormatSubscriptionMessage_def slice_to_def Let_def)

subsection \<open>Connection provider\<close>

lemma GetConnection_cached: "once_done w \<Longrightarrow> GetConnection w = ((db w, initErr w), w)"
  by (simp add: GetConnection_def once_Do_def Let_def)

lemma GetConnection_once_done: "once_done (snd (GetConnection w))"
  by (simp add: GetConnection_def once_Do_def Let_def)

lemma GetConnection_frame:
  "now (snd (GetConnection w)) = now w"
  "uuid_New (snd (GetConnection w)) = uuid_New w"
  "execute_error (snd (GetConnection w)) = execute_error w"
  "ydb (snd (GetConnection w)) = ydb w"
  by (simp_all add: GetConnection_def once_Do_def init_connection_def ydb_Open_def Let_def
      split: option.splits)

lemma GetConnection_result:
  "fst (GetConnection w) = (db (snd (GetConnection w)), initErr (snd (GetConnection w)))"
  by (simp add: GetConnection_def Let_def)

lemma GetConnection_first_error:
  "\<not> once_done w \<Longrightarrow>
     snd (fst (GetConnection w)) =
       (if YDB_ENDPOINT w = '''' \<or> YDB_DATABASE w = '''' then Some ErrMissingConfig
        else map_option External (open_error w))"
  by (simp add: GetConnection_def once_Do_def init_connection_def ydb_Open_def Let_def
      split: option.splits)

lemma GetConnection_repeated_cached:
  "once_done w \<Longrightarrow> \<forall>r \<in> set (GetConnection_repeated envs w). r = (db w, initErr w)"
proof (induction envs arbitrary: w)
  case Nil
  then show ?case by simp
next
  case (Cons a envs)
  obtain e d opn where a: "a = (e, d, opn)" by (cases a) auto
  let ?w = "w\<lparr>YDB_ENDPOINT := e, YDB_DATABASE := d, open_error := opn\<rparr>"
  have od: "once_done ?w" using Cons.prems by simp
  then have g: "GetConnection ?w = ((db w, initErr w), ?w)"
    by (simp add: GetConnection_cached)
  from Cons.IH [of ?w] od
  have "\<forall>r\<in>set (GetConnection_repeated envs ?w). r = (db w, initErr w)"
    by simp
  then show ?case by (simp add: a g)
qed

text \<open>
  C8. At first use GetConnection fails with the configuration error exactly when the
  endpoint or the database setting is empty, and then every later call in the process
  returns that same error, whatever the settings have become and whether or not a
  connection could now be opened.
\<close>

theorem GetConnection_config_error_cached:
  assumes "\<not> once_done w"
  shows "(snd (fst (GetConnection w)) = Some ErrMissingConfig
            \<longleftrightarrow> YDB_ENDPOINT w = '''' \<or> YDB_DATABASE w = '''')
       \<and> (YDB_ENDPOINT w = '''' \<or> YDB_DATABASE w = '''' \<longrightarrow>
            (\<forall>r \<in> set (GetConnection_repeated envs (snd (GetConnection w))).
                 snd r = Some ErrMissingConfig))"
proof -
  have first: "snd (fst (GetConnection w)) = Some ErrMissingConfig
            \<longleftrightarrow> YDB_ENDPOINT w = '''' \<or> YDB_DATABASE w = ''''"
    using assms by (auto simp: GetConnection_first_error split: option.splits)
  have later: "\<forall>r \<in> set (GetConnection_repeated envs (snd (GetConnection w))).
                 r = (db (snd (GetConnection w)), initErr (snd (GetConnection w)))"
    by (rule GetConnection_repeated_cached) (rule GetConnection_once_done)
  have "initErr (snd (GetConnection w)) = snd (fst (GetConnection w))"
    by (simp add: GetConnection_result)
  with first later show ?thesis by auto
qed

theorem GetConnection_config_error_cached_witness:
  "\<not> once_done (process_start\<lparr>YDB_DATABASE := ''''\<rparr>)
   \<and> snd (fst (GetConnection (process_start\<lparr>YDB_DATABASE := ''''\<rparr>))) = Some ErrMissingConfig
   \<and> GetConnection_repeated [(''grpcs://ydb.example:2135'', ''/local'', None), (''a'', ''b'', Some ''down'')]
        (snd (GetConnection (process_start\<lparr>YDB_DATABASE := ''''\<rparr>)))
       = [(None, Some ErrMissingConfig), (None, Some ErrMissingConfig)]"
  using GetConnection_config_error_cached [of "process_start\<lparr>YDB_DATABASE := ''''\<rparr>"
      "[(''grpcs://ydb.example:2135'', ''/local'', None), (''a'', ''b'', Some ''down'')]"]
  by (simp add: process_start_def GetConnection_def once_Do_def init_connection_def ydb_Open_def Let_def)

subsection \<open>Transactional executor\<close>

lemma DoTx_begin_failure:
  "begin_error s = Some err \<Longrightarrow>
     DoTx fn s = (Returns (Some err), s\<lparr>calls := calls s @ [Execute '''', BeginTransaction]\<rparr>)"
  by (simp add: DoTx_def called_def Let_def)

text \<open>
  C7. Once the transaction has begun, DoTx invokes the unit of work, commits exactly
  when the unit of work returns nil, and ends with the rollback on every path: after the
  commit, after an error returned by the unit of work, and after its panic. DoTx returns
  what the unit of work returned (the result of the commit when that was nil) and
  panics when the unit of work panics.
\<close>

theorem DoTx_rollback_on_every_exit:
  assumes "begin_error s = None"
  shows "calls (snd (DoTx fn s)) =
           calls s @ [Execute '''', BeginTransaction, Call]
             @ (case fst (fn (data s)) of Returns None \<Rightarrow> [Commit, Rollback] | _ \<Rightarrow> [Rollback])
       \<and> fst (DoTx fn s) =
           (case fst (fn (data s)) of Returns None \<Rightarrow> Returns (commit_error s) | r \<Rightarrow> r)
       \<and> data (snd (DoTx fn s)) = snd (fn (data s))"
  using assms
  by (cases "fn (data s)")
     (simp add: DoTx_def defer_Rollback_def invoke_def called_def Let_def
        split: outcome.splits option.splits prod.splits)

theorem DoTx_rollback_on_every_exit_witness:
  "begin_error tx_session = None
   \<and> DoTx (\<lambda>d. (Returns None, d + 1)) tx_session
       = (Returns None, tx_session\<lparr>calls := [Execute '''', BeginTransaction, Call, Commit, Rollback], data := 1\<rparr>)
   \<and> DoTx (\<lambda>d. (Returns (Some (External ''conflict'')), d + 1)) tx_session
       = (Returns (Some (External ''conflict'')),
          tx_session\<lparr>calls := [Execute '''', BeginTransaction, Call, Rollback], data := 1\<rparr>)
   \<and> DoTx (\<lambda>d. (Panics ''nil map'', d + 1)) tx_session
       = (Panics ''nil map'', tx_session\<lparr>calls := [Execute '''', BeginTransaction, Call, Rollback], data := 1\<rparr>)"
  using DoTx_rollback_on_every_exit [of tx_session "\<lambda>d. (Returns None, d + 1)"]
        DoTx_rollback_on_every_exit [of tx_session "\<lambda>d. (Returns (Some (External ''conflict'')), d + 1)"]
        DoTx_rollback_on_every_exit [of tx_session "\<lambda>d. (Panics ''nil map'', d + 1)"]
  by (simp add: tx_session_def DoTx_def defer_Rollback_def invoke_def called_def Let_def)

subsection \<open>Value codec\<close>

lemma uint_unix_uint32: "uint (unix_uint32 t) = Unix t mod 2 ^ 32"
  by (simp add: unix_uint32_def uint_word_of_int)

lemma decode_encode_optional_time:
  "decode_optional_time (encode_optional_time t)
     = Inr (map_option (\<lambda>x. Time (Unix x mod 2 ^ 32) 0) t)"
  by (cases t)
     (simp_all add: decode_optional_time_def encode_optional_time_def optionalDatetime_def
        bind_scan_def time_of_uint32_def time_Unix_def uint_unix_uint32)

text \<open>
  C5, as amended. An absent timestamp encodes as the null of type Datetime and decodes
  to absent. A present timestamp \<open>t\<close> encodes as a non-null Datetime of
  \<open>Unix t\<close> reduced modulo \<open>2 ^ 32\<close> and decodes to the instant of that many
  whole seconds; this is \<open>t\<close> without its sub-second part when
  \<open>0 \<le> Unix t < 2 ^ 32\<close>.
\<close>

theorem optional_time_roundtrip_in_range:
  "encode_optional_time None = NullValue TypeDatetime
   \<and> decode_optional_time (encode_optional_time None) = Inr None
   \<and> encode_optional_time (Some t) = OptionalValue (DatetimeValue (unix_uint32 t))
   \<and> decode_optional_time (encode_optional_time (Some t)) = Inr (Some (Time (Unix t mod 2 ^ 32) 0))
   \<and> (0 \<le> Unix t \<and> Unix t < 2 ^ 32 \<longrightarrow>
        decode_optional_time (encode_optional_time (Some t)) = Inr (Some (truncate_to_second t)))"
  by (simp add: decode_encode_optional_time truncate_to_second_def Unix_def)
     (simp add: encode_optional_time_def optionalDatetime_def)

theorem optional_time_roundtrip_in_range_witness:
  "(0 \<le> Unix (Time 1700000000 123456789) \<and> Unix (Time 1700000000 123456789) < 2 ^ 32)
   \<and> decode_optional_time (encode_optional_time (Some (Time 1700000000 123456789)))
       = Inr (Some (Time 1700000000 0))"
  using optional_time_roundtrip_in_range
          [of "Time 1700000000 123456789", THEN conjunct2, THEN conjunct2, THEN conjunct2, THEN conjunct2]
  by (simp add: truncate_to_second_def Unix_def)

text \<open>
  The claim as stated fails for the zero \<^verbatim>\<open>time.Time\<close> (year 1): its seconds do not
  fit the unsigned 32 bits of a Datetime, and it reads back as an instant in 2042.
\<close>

theorem optional_time_roundtrip_counterexample:
  "decode_optional_time (encode_optional_time (Some zero_time)) = Inr (Some (Time 2288912640 0))
   \<and> decode_optional_time (encode_optional_time (Some zero_time))
       \<noteq> Inr (Some (truncate_to_second zero_time))"
  by (simp add: decode_encode_optional_time truncate_to_second_def Unix_def zero_time_def)

subsection \<open>Point lookups\<close>

lemma conn_inv_start: "\<not> once_done w \<Longrightarrow> conn_inv w"
  by (simp add: conn_inv_def)

lemma GetConnection_error_kind:
  "conn_inv w \<Longrightarrow> snd (fst (GetConnection w)) = Some e \<Longrightarrow> is_init_error e"
  by (auto simp: conn_inv_def GetConnection_def once_Do_def init_connection_def ydb_Open_def
      Let_def is_init_error_def split: option.splits if_splits)

lemma conn_inv_GetConnection: "conn_inv w \<Longrightarrow> conn_inv (snd (GetConnection w))"
  by (auto simp: conn_inv_def GetConnection_def once_Do_def init_connection_def ydb_Open_def
      Let_def is_init_error_def split: option.splits if_splits)

lemma conn_inv_Table_Do: "conn_inv w \<Longrightarrow> conn_inv (snd (Table_Do w q))"
  by (auto simp: Table_Do_def conn_inv_def split: option.splits sum.splits)

lemma conn_inv_Query: "conn_inv w \<Longrightarrow> conn_inv (snd (Query w q))"
  using conn_inv_GetConnection [of w] conn_inv_Table_Do [of "snd (GetConnection w)" q]
  by (cases "GetConnection w") (auto simp: Query_def split: option.splits)

lemma world_ydb_same: "w\<lparr>ydb := ydb w\<rparr> = (w::world)"
  by simp

lemma Table_Do_SELECT:
  "Table_Do w (SELECT cols t c) =
     (case execute_error w of
        Some m \<Rightarrow> (Inl (External m), w)
      | None \<Rightarrow> (Inr [map (project cols) (filter (matches c) (ydb w t))], w))"
  by (simp add: Table_Do_def split: option.splits)

lemma first_row_single: "first_row [rs] = (case rs of [] \<Rightarrow> None | r # _ \<Rightarrow> Some r)"
  by (simp add: first_row_def)

lemma NextRow_single: "NextRow [rs] = (case rs of [] \<Rightarrow> None | r # _ \<Rightarrow> Some r)"
  by (simp add: NextRow_def)

lemma GetConnection_cases:
  obtains d e w1 where "GetConnection w = ((d, e), w1)" "execute_error w1 = execute_error w"
    "ydb w1 = ydb w" "now w1 = now w" "uuid_New w1 = uuid_New w" "once_done w1" "initErr w1 = e"
proof -
  obtain d e w1 where g: "GetConnection w = ((d, e), w1)"
    by (metis surj_pair)
  have "w1 = snd (GetConnection w)" "e = snd (fst (GetConnection w))"
    by (simp_all add: g)
  then show thesis
    using that [OF g] GetConnection_frame [of w] GetConnection_once_done [of w] GetConnection_result [of w]
    by simp
qed

lemma Query_SELECT:
  "Query w (SELECT cols t c) =
     (case snd (fst (GetConnection w)) of
        Some err \<Rightarrow> (Inl err, snd (GetConnection w))
      | None \<Rightarrow>
          (case execute_error w of
             Some m \<Rightarrow> (Inl (External m), snd (GetConnection w))
           | None \<Rightarrow> (Inr [map (project cols) (filter (matches c) (ydb w t))], snd (GetConnection w))))"
proof -
  obtain d e w1 where g: "GetConnection w = ((d, e), w1)" "execute_error w1 = execute_error w"
    "ydb w1 = ydb w"
    by (rule GetConnection_cases)
  show ?thesis
    by (simp add: Query_def g Table_Do_SELECT split: option.splits)
qed

lemma GetUserByTelegramChatID_eq:
  "GetUserByTelegramChatID w chatID =
     (case snd (fst (GetConnection w)) of
        Some err \<Rightarrow> ((None, Some err), snd (GetConnection w))
      | None \<Rightarrow>
          (case execute_error w of
             Some m \<Rightarrow> ((None, Some (External m)), snd (GetConnection w))
           | None \<Rightarrow>
               (case chat_rows w ''users'' chatID of
                  [] \<Rightarrow> ((None, Some ErrUserNotFound), snd (GetConnection w))
                | r # _ \<Rightarrow>
                    (case Scan_User (project [''telegram_chat_id'', ''status'', ''created_at'',
                             ''last_auth_success_at'', ''last_auth_failure_at''] r) of
                       Inl err \<Rightarrow> ((None, Some err), snd (GetConnection w))
                     | Inr user \<Rightarrow> ((Some user, None), snd (GetConnection w))))))"
proof -
  obtain d e w1 where g: "GetConnection w = ((d, e), w1)" "execute_error w1 = execute_error w"
    "ydb w1 = ydb w"
    by (rule GetConnection_cases)
  show ?thesis
    by (simp add: GetUserByTelegramChatID_def GetUserByTelegramChatID_query_def g Table_Do_SELECT
        first_row_single chat_rows_def split: option.splits list.splits sum.splits)
qed

lemma GetUserTokens_eq:
  "GetUserTokens w chatID =
     (case snd (fst (GetConnection w)) of
        Some err \<Rightarrow> ((None, Some err), snd (GetConnection w))
      | None \<Rightarrow>
          (case execute_error w of
             Some m \<Rightarrow> ((None, Some (External m)), snd (GetConnection w))
           | None \<Rightarrow>
               (case chat_rows w ''user_tokens'' chatID of
                  [] \<Rightarrow> ((None, Some ErrTokensNotFound), snd (GetConnection w))
                | r # _ \<Rightarrow>
                    (case Scan_UserTokens (project [''telegram_chat_id'', ''access_token'',
                             ''refresh_token'', ''user_id'', ''datadome'', ''app_token'',
                             ''created_at'', ''updated_at''] r) of
                       Inl err \<Rightarrow> ((None, Some err), snd (GetConnection w))
                     | Inr tokens \<Rightarrow> ((Some tokens, None), snd (GetConnection w))))))"
proof -
  obtain d e w1 where g: "GetConnection w = ((d, e), w1)" "execute_error w1 = execute_error w"
    "ydb w1 = ydb w"
    by (rule GetConnection_cases)
  show ?thesis
    by (simp add: GetUserTokens_def GetUserTokens_query_def g Table_Do_SELECT
        first_row_single chat_rows_def split: option.splits list.splits sum.splits)
qed

lemma GetUserByTelegramChatID_iface_eq:
  "GetUserByTelegramChatID_iface w chatID =
     (case snd (fst (GetConnection w)) of
        Some err \<Rightarrow>
          ((None, Some (Errorf ''failed to query user by telegram_chat_id %d'' err)), snd (GetConnection w))
      | None \<Rightarrow>
          (case execute_error w of
             Some m \<Rightarrow>
               ((None, Some (Errorf ''failed to query user by telegram_chat_id %d'' (External m))),
                snd (GetConnection w))
           | None \<Rightarrow>
               (case chat_rows w ''users'' chatID of
                  [] \<Rightarrow> ((None, Some ErrUserNotFound), snd (GetConnection w))
                | r # _ \<Rightarrow>
                    (case Scan_User_iface (project [''telegram_chat_id'', ''status'', ''created_at'',
                             ''last_auth_success_at'', ''last_auth_failure_at''] r) of
                       Inl err \<Rightarrow> ((None, Some (Errorf ''failed to scan user'' err)), snd (GetConnection w))
                     | Inr user \<Rightarrow> ((Some user, None), snd (GetConnection w))))))"
  by (simp add: GetUserByTelegramChatID_iface_def GetUserByTelegramChatID_query_def Query_SELECT
      NextRow_single chat_rows_def split: option.splits list.splits sum.splits)

lemma GetUserTokens_iface_eq:
  "GetUserTokens_iface w chatID =
     (case snd (fst (GetConnection w)) of
        Some err \<Rightarrow> ((None, Some (Errorf ''failed to query user tokens'' err)), snd (GetConnection w))
      | None \<Rightarrow>
          (case execute_error w of
             Some m \<Rightarrow>
               ((None, Some (Errorf ''failed to query user tokens'' (External m))), snd (GetConnection w))
           | None \<Rightarrow>
               (case chat_rows w ''user_tokens'' chatID of
                  [] \<Rightarrow> ((None, Some ErrTokensNotFound), snd (GetConnection w))
                | r # _ \<Rightarrow>
                    (case ScanRow_UserTokens (project [''telegram_chat_id'', ''access_token'',
                             ''refresh_token'', ''user_id'', ''datadome'', ''app_token'',
                             ''created_at'', ''updated_at''] r) of
                       Inl err \<Rightarrow>
                         ((None, Some (Errorf ''failed to scan user tokens'' err)), snd (GetConnection w))
                     | Inr tokens \<Rightarrow> ((Some tokens, None), snd (GetConnection w))))))"
  by (simp add: GetUserTokens_iface_def GetUserTokens_query_def Query_SELECT
      NextRow_single chat_rows_def split: option.splits list.splits sum.splits)


lemma scan_int64_error: "scan_int64 v = Inl e \<Longrightarrow> e = ScanError"
  by (induction v rule: scan_int64.induct) auto

lemma scan_int_error: "scan_int v = Inl e \<Longrightarrow> e = ScanError"
  by (induction v rule: scan_int.induct) auto

lemma scan_string_error: "scan_string v = Inl e \<Longrightarrow> e = ScanError"
  by (induction v rule: scan_string.induct) auto

lemma scan_uint32_error: "scan_uint32 v = Inl e \<Longrightarrow> e = ScanError"
  by (induction v rule: scan_uint32.induct) auto

lemma scan_time_error: "scan_time v = Inl e \<Longrightarrow> e = ScanError"
  by (induction v rule: scan_time.induct) auto

lemma bind_scan_error:
  "bind_scan m f = Inl e \<Longrightarrow> (\<And>e. m = Inl e \<Longrightarrow> e = ScanError)
     \<Longrightarrow> (\<And>x e. f x = Inl e \<Longrightarrow> e = ScanError) \<Longrightarrow> e = ScanError"
  by (cases m) (auto simp: bind_scan_def)

lemma scan_opt_time_error: "scan_opt_time v = Inl e \<Longrightarrow> e = ScanError"
  by (cases v) (auto elim!: bind_scan_error dest: scan_time_error)

lemma scan_opt_uint32_error: "scan_opt_uint32 v = Inl e \<Longrightarrow> e = ScanError"
  by (cases v) (auto elim!: bind_scan_error dest: scan_uint32_error)

lemma decode_optional_time_error: "decode_optional_time v = Inl e \<Longrightarrow> e = ScanError"
  by (auto simp: decode_optional_time_def elim!: bind_scan_error dest: scan_opt_uint32_error)

lemmas scan_errors = scan_int64_error scan_int_error scan_string_error scan_uint32_error
  scan_time_error scan_opt_time_error scan_opt_uint32_error decode_optional_time_error

lemma Scan_User_error: "Scan_User r = Inl e \<Longrightarrow> e = ScanError"
  unfolding Scan_User_def
  by (auto split: list.splits elim!: bind_scan_error dest: scan_errors)

lemma Scan_UserTokens_error: "Scan_UserTokens r = Inl e \<Longrightarrow> e = ScanError"
  unfolding Scan_UserTokens_def
  by (auto split: list.splits elim!: bind_scan_error dest: scan_errors)

lemma Scan_User_iface_error: "Scan_User_iface r = Inl e \<Longrightarrow> e = ScanError"
  unfolding Scan_User_iface_def
  by (auto split: list.splits elim!: bind_scan_error dest: scan_errors)

lemma ScanRow_UserTokens_error: "ScanRow_UserTokens r = Inl e \<Longrightarrow> e = ScanError"
  unfolding ScanRow_UserTokens_def
  by (auto elim!: bind_scan_error dest: scan_errors)

lemma is_init_error_simps [simp]:
  "\<not> is_init_error ErrUserNotFound" "\<not> is_init_error ErrTokensNotFound"
  "\<not> is_init_error (Errorf msg e)" "\<not> is_init_error ScanError"
  by (simp_all add: is_init_error_def)

lemma init_error_Is:
  "is_init_error e \<Longrightarrow> \<not> errors_Is e ErrUserNotFound \<and> \<not> errors_Is e ErrTokensNotFound"
  by (cases e) (simp_all add: is_init_error_def)


lemma GetUserByTelegramChatID_not_found_iff:
  assumes "conn_inv w"
  shows "fst (GetUserByTelegramChatID w chatID) = (None, Some ErrUserNotFound)
           \<longleftrightarrow> snd (fst (GetConnection w)) = None \<and> execute_error w = None
                \<and> chat_rows w ''users'' chatID = []"
  using GetConnection_error_kind [OF assms]
  by (auto simp: GetUserByTelegramChatID_eq split: option.splits list.splits sum.splits
      dest: Scan_User_error)

lemma GetUserTokens_not_found_iff:
  assumes "conn_inv w"
  shows "fst (GetUserTokens w chatID) = (None, Some ErrTokensNotFound)
           \<longleftrightarrow> snd (fst (GetConnection w)) = None \<and> execute_error w = None
                \<and> chat_rows w ''user_tokens'' chatID = []"
  using GetConnection_error_kind [OF assms]
  by (auto simp: GetUserTokens_eq split: option.splits list.splits sum.splits
      dest: Scan_UserTokens_error)

lemma GetUserByTelegramChatID_iface_not_found_iff:
  assumes "conn_inv w"
  shows "(\<exists>e. fst (GetUserByTelegramChatID_iface w chatID) = (None, Some e) \<and> errors_Is e ErrUserNotFound)
           \<longleftrightarrow> snd (fst (GetConnection w)) = None \<and> execute_error w = None
                \<and> chat_rows w ''users'' chatID = []"
  using GetConnection_error_kind [OF assms]
  by (auto simp: GetUserByTelegramChatID_iface_eq split: option.splits list.splits sum.splits
      dest: Scan_User_iface_error init_error_Is)

lemma GetUserTokens_iface_not_found_iff:
  assumes "conn_inv w"
  shows "(\<exists>e. fst (GetUserTokens_iface w chatID) = (None, Some e) \<and> errors_Is e ErrTokensNotFound)
           \<longleftrightarrow> snd (fst (GetConnection w)) = None \<and> execute_error w = None
                \<and> chat_rows w ''user_tokens'' chatID = []"
  using GetConnection_error_kind [OF assms]
  by (auto simp: GetUserTokens_iface_eq split: option.splits list.splits sum.splits
      dest: ScanRow_UserTokens_error init_error_Is)

lemma lookup_execution_error:
  assumes "snd (fst (GetConnection w)) = None" "execute_error w = Some m"
  shows "fst (GetUserByTelegramChatID w chatID) = (None, Some (External m))"
    and "fst (GetUserTokens w chatID) = (None, Some (External m))"
    and "fst (GetUserByTelegramChatID_iface w chatID)
           = (None, Some (Errorf ''failed to query user by telegram_chat_id %d'' (External m)))"
    and "fst (GetUserTokens_iface w chatID)
           = (None, Some (Errorf ''failed to query user tokens'' (External m)))"
  using assms
  by (simp_all add: GetUserByTelegramChatID_eq GetUserTokens_eq GetUserByTelegramChatID_iface_eq
      GetUserTokens_iface_eq)

text \<open>
  C4. The point lookups GetUserByTelegramChatID and GetUserTokens return their
  entity's not-found error exactly when the connection is available, the statement
  executes and no row matches the chat identity; an execution error of the store is
  returned to the caller instead (as it is by repository.go, wrapped with the name of
  the operation by interface.go).
\<close>

theorem point_lookup_not_found_only_on_zero_rows:
  assumes "conn_inv w"
  shows "(fst (GetUserByTelegramChatID w chatID) = (None, Some ErrUserNotFound)
            \<longleftrightarrow> snd (fst (GetConnection w)) = None \<and> execute_error w = None
                 \<and> chat_rows w ''users'' chatID = [])
       \<and> (fst (GetUserTokens w chatID) = (None, Some ErrTokensNotFound)
            \<longleftrightarrow> snd (fst (GetConnection w)) = None \<and> execute_error w = None
                 \<and> chat_rows w ''user_tokens'' chatID = [])
       \<and> (fst (GetUserByTelegramChatID_iface w chatID) = (None, Some ErrUserNotFound)
            \<longleftrightarrow> snd (fst (GetConnection w)) = None \<and> execute_error w = None
                 \<and> chat_rows w ''users'' chatID = [])
       \<and> (fst (GetUserTokens_iface w chatID) = (None, Some ErrTokensNotFound)
            \<longleftrightarrow> snd (fst (GetConnection w)) = None \<and> execute_error w = None
                 \<and> chat_rows w ''user_tokens'' chatID = [])
       \<and> (snd (fst (GetConnection w)) = None \<and> execute_error w = Some m \<longrightarrow>
            fst (GetUserByTelegramChatID w chatID) = (None, Some (External m))
            \<and> fst (GetUserTokens w chatID) = (None, Some (External m))
            \<and> fst (GetUserByTelegramChatID_iface w chatID)
                 = (None, Some (Errorf ''failed to query user by telegram_chat_id %d'' (External m)))
            \<and> fst (GetUserTokens_iface w chatID)
                 = (None, Some (Errorf ''failed to query user tokens'' (External m))))"
proof -
  have users_iface: "fst (GetUserByTelegramChatID_iface w chatID) = (None, Some ErrUserNotFound)
            \<longleftrightarrow> snd (fst (GetConnection w)) = None \<and> execute_error w = None
                 \<and> chat_rows w ''users'' chatID = []"
    using GetUserByTelegramChatID_iface_not_found_iff [OF assms, of chatID]
    by (auto simp: GetUserByTelegramChatID_iface_eq split: option.splits list.splits sum.splits)
  have tokens_iface: "fst (GetUserTokens_iface w chatID) = (None, Some ErrTokensNotFound)
            \<longleftrightarrow> snd (fst (GetConnection w)) = None \<and> execute_error w = None
                 \<and> chat_rows w ''user_tokens'' chatID = []"
    using GetUserTokens_iface_not_found_iff [OF assms, of chatID]
    by (auto simp: GetUserTokens_iface_eq split: option.splits list.splits sum.splits)
  show ?thesis
    using users_iface tokens_iface
      GetUserByTelegramChatID_not_found_iff [OF assms, of chatID]
      GetUserTokens_not_found_iff [OF assms, of chatID]
      lookup_execution_error [of w m chatID]
    by simp
qed

theorem point_lookup_not_found_only_on_zero_rows_witness:
  "conn_inv process_start
   \<and> fst (GetUserByTelegramChatID process_start 12345) = (None, Some ErrUserNotFound)
   \<and> fst (GetUserTokens_iface process_start 12345) = (None, Some ErrTokensNotFound)
   \<and> fst (GetUserByTelegramChatID (process_start\<lparr>execute_error := Some ''transport is closing''\<rparr>) 12345)
       = (None, Some (External ''transport is closing''))
   \<and> fst (GetUserTokens_iface (process_start\<lparr>execute_error := Some ''transport is closing''\<rparr>) 12345)
       = (None, Some (Errorf ''failed to query user tokens'' (External ''transport is closing'')))"
  using point_lookup_not_found_only_on_zero_rows [of process_start 12345]
    point_lookup_not_found_only_on_zero_rows
      [of "process_start\<lparr>execute_error := Some ''transport is closing''\<rparr>" 12345 "''transport is closing''"]
  by (simp add: conn_inv_def process_start_def chat_rows_def GetConnection_def once_Do_def
      init_connection_def ydb_Open_def Let_def)

subsection \<open>Writes\<close>


lemma Table_Do_UPDATE:
  "Table_Do w (UPDATE t s c) =
     (case execute_error w of
        Some m \<Rightarrow> (Inl (External m), w)
      | None \<Rightarrow> (Inr [], w\<lparr>ydb := (ydb w)(t := map (\<lambda>r. if matches c r then r ++ map_of s else r) (ydb w t))\<rparr>))"
  by (simp add: Table_Do_def split: option.splits)

lemma Table_Do_INSERT:
  "Table_Do w (INSERT t vs) =
     (case execute_error w of
        Some m \<Rightarrow> (Inl (External m), w)
      | None \<Rightarrow>
          (if list_ex (\<lambda>r0. r0 (primary_key t) = map_of vs (primary_key t)) (ydb w t)
           then (Inl (External ''PRECONDITION_FAILED: conflict with existing key''), w)
           else (Inr [], w\<lparr>ydb := (ydb w)(t := ydb w t @ [map_of vs])\<rparr>)))"
  by (simp add: Table_Do_def Let_def split: option.splits)

lemma Table_Do_UPSERT:
  "Table_Do w (UPSERT t vs) =
     (case execute_error w of
        Some m \<Rightarrow> (Inl (External m), w)
      | None \<Rightarrow>
          (if list_ex (\<lambda>r0. r0 (primary_key t) = map_of vs (primary_key t)) (ydb w t)
           then (Inr [], w\<lparr>ydb := (ydb w)(t := map (\<lambda>r0. if r0 (primary_key t) = map_of vs (primary_key t)
                                                       then r0 ++ map_of vs else r0) (ydb w t))\<rparr>)
           else (Inr [], w\<lparr>ydb := (ydb w)(t := ydb w t @ [map_of vs])\<rparr>)))"
  by (simp add: Table_Do_def Let_def split: option.splits)

text \<open>What a successful narrow update leaves behind.\<close>

lemma UpdateUserStatus_success:
  assumes "UpdateUserStatus w chatID status = (None, w')"
  shows "w' = (snd (GetConnection w))\<lparr>ydb := (ydb w)(''users'' :=
                 map (\<lambda>r. if matches [(''telegram_chat_id'', Int64Value chatID)] r
                           then r ++ map_of [(''status'', UTF8Value status)] else r) (ydb w ''users''))\<rparr>"
    and "snd (fst (GetConnection w)) = None" and "execute_error w = None"
proof -
  obtain d e w1 where g: "GetConnection w = ((d, e), w1)" "execute_error w1 = execute_error w"
    "ydb w1 = ydb w"
    by (rule GetConnection_cases)
  from assms show "w' = (snd (GetConnection w))\<lparr>ydb := (ydb w)(''users'' :=
                 map (\<lambda>r. if matches [(''telegram_chat_id'', Int64Value chatID)] r
                           then r ++ map_of [(''status'', UTF8Value status)] else r) (ydb w ''users''))\<rparr>"
    and "snd (fst (GetConnection w)) = None" and "execute_error w = None"
    by (auto simp: UpdateUserStatus_def UpdateUserStatus_query_def g Table_Do_UPDATE
        split: option.splits)
qed

lemma UpdateUserStatus_iface_success:
  assumes "UpdateUserStatus_iface w chatID status = (None, w')"
  shows "w' = (snd (GetConnection w))\<lparr>ydb := (ydb w)(''users'' :=
                 map (\<lambda>r. if matches [(''telegram_chat_id'', Int64Value chatID)] r
                           then r ++ map_of [(''status'', UTF8Value status)] else r) (ydb w ''users''))\<rparr>"
    and "snd (fst (GetConnection w)) = None" and "execute_error w = None"
proof -
  obtain d e w1 where g: "GetConnection w = ((d, e), w1)" "execute_error w1 = execute_error w"
    "ydb w1 = ydb w"
    by (rule GetConnection_cases)
  from assms show "w' = (snd (GetConnection w))\<lparr>ydb := (ydb w)(''users'' :=
                 map (\<lambda>r. if matches [(''telegram_chat_id'', Int64Value chatID)] r
                           then r ++ map_of [(''status'', UTF8Value status)] else r) (ydb w ''users''))\<rparr>"
    and "snd (fst (GetConnection w)) = None" and "execute_error w = None"
    by (auto simp: UpdateUserStatus_iface_def Exec_def Query_def g Table_Do_UPDATE
        split: option.splits)
qed

lemma GetConnection_ydb_update:
  "once_done w \<Longrightarrow> GetConnection (w\<lparr>ydb := T\<rparr>) = ((db w, initErr w), w\<lparr>ydb := T\<rparr>)"
  by (simp add: GetConnection_cached)

lemma GetConnection_snd_idem: "GetConnection (snd (GetConnection w)) = (fst (GetConnection w), snd (GetConnection w))"
  using GetConnection_cached [OF GetConnection_once_done [of w]] GetConnection_result [of w]
  by simp

text \<open>The rows selected by chat identity after a status update.\<close>

lemma chat_rows_status_update:
  "filter (matches [(''telegram_chat_id'', Int64Value c)])
     (map (\<lambda>r. if matches [(''telegram_chat_id'', Int64Value chatID)] r
               then r ++ map_of [(''status'', v)] else r) rows)
   = map (\<lambda>r. if c = chatID then r ++ map_of [(''status'', v)] else r)
       (filter (matches [(''telegram_chat_id'', Int64Value c)]) rows)"
  by (induction rows) (auto simp: matches_def map_add_def)

lemma project_status_update:
  "project [''telegram_chat_id'', ''status'', ''created_at'', ''last_auth_success_at'', ''last_auth_failure_at'']
     (r(''status'' \<mapsto> v))
   = [(''telegram_chat_id'', column r ''telegram_chat_id''), (''status'', v),
      (''created_at'', column r ''created_at''),
      (''last_auth_success_at'', column r ''last_auth_success_at''),
      (''last_auth_failure_at'', column r ''last_auth_failure_at'')]"
  by (simp add: project_def column_def)

lemma Scan_User_status_update:
  assumes "Scan_User (project [''telegram_chat_id'', ''status'', ''created_at'', ''last_auth_success_at'',
              ''last_auth_failure_at''] r) = Inr u"
  shows "Scan_User (project [''telegram_chat_id'', ''status'', ''created_at'', ''last_auth_success_at'',
              ''last_auth_failure_at''] (r(''status'' \<mapsto> UTF8Value status)))
           = Inr (u\<lparr>user_Status := status\<rparr>)"
  using assms unfolding project_status_update
  by (auto simp: Scan_User_def project_def bind_scan_def split: sum.splits)

lemma Scan_User_iface_status_update:
  assumes "Scan_User_iface (project [''telegram_chat_id'', ''status'', ''created_at'', ''last_auth_success_at'',
              ''last_auth_failure_at''] r) = Inr u"
  shows "Scan_User_iface (project [''telegram_chat_id'', ''status'', ''created_at'', ''last_auth_success_at'',
              ''last_auth_failure_at''] (r(''status'' \<mapsto> UTF8Value status)))
           = Inr (u\<lparr>user_Status := status\<rparr>)"
  using assms unfolding project_status_update
  by (auto simp: Scan_User_iface_def project_def bind_scan_def split: sum.splits)


lemma connected_snd_fst: "once_done w \<Longrightarrow> snd (fst (GetConnection w)) = initErr w"
  by (simp add: GetConnection_cached)

lemma GetUserByTelegramChatID_success:
  assumes "GetUserByTelegramChatID w chatID = ((Some u, None), w1)"
  shows "w1 = snd (GetConnection w)" and "snd (fst (GetConnection w)) = None"
    and "execute_error w = None"
    and "\<exists>r rest. chat_rows w ''users'' chatID = r # rest
           \<and> Scan_User (project [''telegram_chat_id'', ''status'', ''created_at'',
                  ''last_auth_success_at'', ''last_auth_failure_at''] r) = Inr u"
  using assms
  by (auto simp: GetUserByTelegramChatID_eq split: option.splits list.splits sum.splits)

lemma GetUserByTelegramChatID_iface_success:
  assumes "GetUserByTelegramChatID_iface w chatID = ((Some u, None), w1)"
  shows "w1 = snd (GetConnection w)" and "snd (fst (GetConnection w)) = None"
    and "execute_error w = None"
    and "\<exists>r rest. chat_rows w ''users'' chatID = r # rest
           \<and> Scan_User_iface (project [''telegram_chat_id'', ''status'', ''created_at'',
                  ''last_auth_success_at'', ''last_auth_failure_at''] r) = Inr u"
  using assms
  by (auto simp: GetUserByTelegramChatID_iface_eq split: option.splits list.splits sum.splits)

lemma connected_after_GetConnection:
  assumes "snd (fst (GetConnection w)) = None"
  shows "once_done (snd (GetConnection w))" and "initErr (snd (GetConnection w)) = None"
  using assms GetConnection_once_done [of w] GetConnection_result [of w]
  by simp_all

text \<open>
  C9. For every chat identity and status, after a successful UpdateUserStatus a read of
  that user returns the user read before with only the status replaced (chat identity,
  created_at and both authentication times unchanged), and the reads of every other
  chat identity are unchanged. This holds for both implementations.
\<close>

theorem UpdateUserStatus_changes_only_status:
  "(GetUserByTelegramChatID w chatID = ((Some u, None), w1)
      \<and> UpdateUserStatus w1 chatID status = (None, w2)
    \<longrightarrow> fst (GetUserByTelegramChatID w2 chatID) = (Some (u\<lparr>user_Status := status\<rparr>), None)
        \<and> (\<forall>c. c \<noteq> chatID \<longrightarrow> fst (GetUserByTelegramChatID w2 c) = fst (GetUserByTelegramChatID w1 c)))
   \<and> (GetUserByTelegramChatID_iface w chatID = ((Some u, None), w1)
      \<and> UpdateUserStatus_iface w1 chatID status = (None, w2)
    \<longrightarrow> fst (GetUserByTelegramChatID_iface w2 chatID) = (Some (u\<lparr>user_Status := status\<rparr>), None)
        \<and> (\<forall>c. c \<noteq> chatID \<longrightarrow>
              fst (GetUserByTelegramChatID_iface w2 c) = fst (GetUserByTelegramChatID_iface w1 c)))"
proof (intro conjI impI; elim conjE)
  let ?upd = "\<lambda>r. if matches [(''telegram_chat_id'', Int64Value chatID)] r
                   then r ++ map_of [(''status'', UTF8Value status)] else r"
  {
    assume get: "GetUserByTelegramChatID w chatID = ((Some u, None), w1)"
      and upd: "UpdateUserStatus w1 chatID status = (None, w2)"
    note g = GetUserByTelegramChatID_success [OF get]
    have c1: "once_done w1" "initErr w1 = None"
      using connected_after_GetConnection [OF g(2)] g(1) by simp_all
    have e1: "execute_error w1 = None" "ydb w1 = ydb w"
      using g(1) g(3) GetConnection_frame [of w] by simp_all
    have w2: "w2 = w1\<lparr>ydb := (ydb w1)(''users'' := map ?upd (ydb w1 ''users''))\<rparr>"
      using UpdateUserStatus_success(1) [OF upd] c1 by (simp add: GetConnection_cached)
    have c2: "snd (fst (GetConnection w2)) = None" "execute_error w2 = None"
      using c1 e1 by (simp_all add: w2 GetConnection_cached)
    have c1': "snd (fst (GetConnection w1)) = None"
      using c1 by (simp add: GetConnection_cached)
    have rows: "chat_rows w2 ''users'' c
                  = map (\<lambda>r. if c = chatID then r ++ map_of [(''status'', UTF8Value status)] else r)
                      (chat_rows w1 ''users'' c)" for c
      by (simp add: chat_rows_def w2 chat_rows_status_update)
    from g(4) obtain r rest where r: "chat_rows w1 ''users'' chatID = r # rest"
      "Scan_User (project [''telegram_chat_id'', ''status'', ''created_at'',
                  ''last_auth_success_at'', ''last_auth_failure_at''] r) = Inr u"
      by (auto simp: chat_rows_def e1)
    show "fst (GetUserByTelegramChatID w2 chatID) = (Some (u\<lparr>user_Status := status\<rparr>), None)"
      by (simp add: GetUserByTelegramChatID_eq c2 rows r Scan_User_status_update)
    show "\<forall>c. c \<noteq> chatID \<longrightarrow> fst (GetUserByTelegramChatID w2 c) = fst (GetUserByTelegramChatID w1 c)"
      by (simp add: GetUserByTelegramChatID_eq c2 c1' e1 rows
          split: option.splits list.splits sum.splits)
  }
  {
    assume get: "GetUserByTelegramChatID_iface w chatID = ((Some u, None), w1)"
      and upd: "UpdateUserStatus_iface w1 chatID status = (None, w2)"
    note g = GetUserByTelegramChatID_iface_success [OF get]
    have c1: "once_done w1" "initErr w1 = None"
      using connected_after_GetConnection [OF g(2)] g(1) by simp_all
    have e1: "execute_error w1 = None" "ydb w1 = ydb w"
      using g(1) g(3) GetConnection_frame [of w] by simp_all
    have w2: "w2 = w1\<lparr>ydb := (ydb w1)(''users'' := map ?upd (ydb w1 ''users''))\<rparr>"
      using UpdateUserStatus_iface_success(1) [OF upd] c1 by (simp add: GetConnection_cached)
    have c2: "snd (fst (GetConnection w2)) = None" "execute_error w2 = None"
      using c1 e1 by (simp_all add: w2 GetConnection_cached)
    have c1': "snd (fst (GetConnection w1)) = None"
      using c1 by (simp add: GetConnection_cached)
    have rows: "chat_rows w2 ''users'' c
                  = map (\<lambda>r. if c = chatID then r ++ map_of [(''status'', UTF8Value status)] else r)
                      (chat_rows w1 ''users'' c)" for c
      by (simp add: chat_rows_def w2 chat_rows_status_update)
    from g(4) obtain r rest where r: "chat_rows w1 ''users'' chatID = r # rest"
      "Scan_User_iface (project [''telegram_chat_id'', ''status'', ''created_at'',
                  ''last_auth_success_at'', ''last_auth_failure_at''] r) = Inr u"
      by (auto simp: chat_rows_def e1)
    show "fst (GetUserByTelegramChatID_iface w2 chatID) = (Some (u\<lparr>user_Status := status\<rparr>), None)"
      by (simp add: GetUserByTelegramChatID_iface_eq c2 rows r Scan_User_iface_status_update)
    show "\<forall>c. c \<noteq> chatID \<longrightarrow>
              fst (GetUserByTelegramChatID_iface w2 c) = fst (GetUserByTelegramChatID_iface w1 c)"
      by (simp add: GetUserByTelegramChatID_iface_eq c2 c1' e1 rows
          split: option.splits list.splits sum.splits)
  }
qed


lemmas run_simps = process_start_def GetConnection_def once_Do_def init_connection_def ydb_Open_def
  Table_Do_def Query_def Exec_def Let_def primary_key_def matches_def project_def column_def
  bind_scan_def first_row_def NextRow_def named_def

lemma with_user_eq:
  "with_user = process_start\<lparr>once_done := True, db := Some (Driver ''grpcs://ydb.example:2135/local''),
       ydb := (\<lambda>t. [])(''users'' :=
         [map_of [(''telegram_chat_id'', Int64Value 12345), (''status'', UTF8Value ''unauthenticated''),
           (''created_at'', TimestampValue 1700000000000000),
           (''last_auth_success_at'', NullValue TypeTimestamp),
           (''last_auth_failure_at'', OptionalValue (TimestampValue 1700000100000000))]])\<rparr>"
  by (simp add: with_user_def UpsertUser_def UpsertUser_query_def UpsertUser_params_def new_user_def run_simps IsZero_def
      TimestampValueFromTime_def OptionalValueOf_def)

lemma with_user_iface_eq:
  "with_user_iface = process_start\<lparr>once_done := True, db := Some (Driver ''grpcs://ydb.example:2135/local''),
       ydb := (\<lambda>t. [])(''users'' :=
         [map_of [(''telegram_chat_id'', Int64Value 12345), (''status'', UTF8Value ''unauthenticated''),
           (''created_at'', DatetimeValue 1700000000),
           (''last_auth_success_at'', NullValue TypeDatetime),
           (''last_auth_failure_at'', OptionalValue (DatetimeValue 1700000100))]])\<rparr>"
  by (simp add: with_user_iface_def UpsertUser_iface_def UpsertUser_iface_query_def
      UpsertUser_iface_params_def new_user_def run_simps
      encode_optional_time_def optionalDatetime_def unix_uint32_def Unix_def)

theorem UpdateUserStatus_changes_only_status_witness:
  "GetUserByTelegramChatID with_user 12345 = ((Some new_user, None), with_user)
   \<and> fst (UpdateUserStatus with_user 12345 ''active'') = None
   \<and> fst (GetUserByTelegramChatID (snd (UpdateUserStatus with_user 12345 ''active'')) 12345)
       = (Some (new_user\<lparr>user_Status := ''active''\<rparr>), None)
   \<and> GetUserByTelegramChatID_iface with_user_iface 12345 = ((Some new_user, None), with_user_iface)
   \<and> fst (UpdateUserStatus_iface with_user_iface 12345 ''active'') = None
   \<and> fst (GetUserByTelegramChatID_iface (snd (UpdateUserStatus_iface with_user_iface 12345 ''active'')) 12345)
       = (Some (new_user\<lparr>user_Status := ''active''\<rparr>), None)"
proof -
  have g: "GetUserByTelegramChatID with_user 12345 = ((Some new_user, None), with_user)"
    by (simp add: with_user_eq GetUserByTelegramChatID_def GetUserByTelegramChatID_query_def Scan_User_def
        new_user_def run_simps time_of_micros_def)
  have u: "fst (UpdateUserStatus with_user 12345 ''active'') = None"
    by (simp add: with_user_eq UpdateUserStatus_def UpdateUserStatus_query_def run_simps)
  have gi: "GetUserByTelegramChatID_iface with_user_iface 12345 = ((Some new_user, None), with_user_iface)"
    by (simp add: with_user_iface_eq GetUserByTelegramChatID_iface_def GetUserByTelegramChatID_query_def
        Scan_User_iface_def decode_optional_time_def time_of_uint32_def time_Unix_def
        new_user_def run_simps)
  have ui: "fst (UpdateUserStatus_iface with_user_iface 12345 ''active'') = None"
    by (simp add: with_user_iface_eq UpdateUserStatus_iface_def run_simps)
  show ?thesis
    using g u gi ui
      UpdateUserStatus_changes_only_status [of with_user 12345 new_user with_user "''active''"
        "snd (UpdateUserStatus with_user 12345 ''active'')"]
      UpdateUserStatus_changes_only_status [of with_user_iface 12345 new_user with_user_iface "''active''"
        "snd (UpdateUserStatus_iface with_user_iface 12345 ''active'')"]
    by (simp add: prod_eq_iff)
qed

subsection \<open>Creating a subscription\<close>

lemma uuid_String_nonempty: "uuid_String u \<noteq> ''''"
  by (simp add: uuid_String_def)

lemma Table_Do_INSERT_success:
  "Table_Do w (INSERT t vs) = (Inr res, w') \<Longrightarrow>
     w' = w\<lparr>ydb := (ydb w)(t := ydb w t @ [map_of vs])\<rparr> \<and> execute_error w = None"
  by (auto simp: Table_Do_INSERT split: option.splits if_splits)

lemma CreateSearchSubscription_success:
  assumes "CreateSearchSubscription w sub = ((sub', None), w')"
  shows "sub' = sub\<lparr>sub_ID := (if sub_ID sub = '''' then uuid_String (uuid_New w) else sub_ID sub),
                     sub_CreatedAt := now w, sub_IsActive := True\<rparr>"
    and "ydb w' ''search_subscriptions''
           = ydb w ''search_subscriptions'' @ [map_of (CreateSearchSubscription_params sub')]"
proof -
  obtain d e w1 where g: "GetConnection w = ((d, e), w1)" "execute_error w1 = execute_error w"
    "ydb w1 = ydb w" "now w1 = now w" "uuid_New w1 = uuid_New w"
    by (rule GetConnection_cases)
  let ?sub3 = "sub\<lparr>sub_ID := (if sub_ID sub = '''' then uuid_String (uuid_New w) else sub_ID sub),
                     sub_CreatedAt := now w, sub_IsActive := True\<rparr>"
  from assms have e: "e = None"
    by (auto simp: CreateSearchSubscription_def g split: option.splits)
  from assms obtain res where t: "Table_Do w1 (INSERT ''search_subscriptions'' (CreateSearchSubscription_params ?sub3))
           = (Inr res, w')" and s: "sub' = ?sub3"
    by (cases "Table_Do w1 (INSERT ''search_subscriptions'' (CreateSearchSubscription_params ?sub3))";
        cases "sub_ID sub = ''''")
       (auto simp: CreateSearchSubscription_def CreateSearchSubscription_query_def g e Let_def
          split: sum.splits)
  show "sub' = ?sub3" by (rule s)
  show "ydb w' ''search_subscriptions''
           = ydb w ''search_subscriptions'' @ [map_of (CreateSearchSubscription_params sub')]"
    using Table_Do_INSERT_success [OF t] by (simp add: g s)
qed

lemma Exec_success:
  assumes "Exec w q = (None, w')"
  shows "\<exists>res. Table_Do (snd (GetConnection w)) q = (Inr res, w')"
    and "snd (fst (GetConnection w)) = None"
proof -
  obtain d e w1 where g: "GetConnection w = ((d, e), w1)"
    by (metis surj_pair)
  from assms show "\<exists>res. Table_Do (snd (GetConnection w)) q = (Inr res, w')"
    and "snd (fst (GetConnection w)) = None"
    by (auto simp: Exec_def Query_def g split: option.splits sum.splits prod.splits)
qed

lemma Exec_INSERT_success:
  assumes "Exec w (INSERT t vs) = (None, w')"
  shows "ydb w' t = ydb w t @ [map_of vs]"
proof -
  from Exec_success(1) [OF assms] obtain res
    where "Table_Do (snd (GetConnection w)) (INSERT t vs) = (Inr res, w')" ..
  from Table_Do_INSERT_success [OF this] show ?thesis
    by (simp add: GetConnection_frame)
qed

text \<open>
  C1, as amended. A successful CreateSearchSubscription of repository.go leaves with the
  caller, and inserts, a subscription whose id is not empty (the generated UUID when the
  caller's id was empty, the caller's id otherwise), whose is_active is true and whose
  created_at is the current time, whatever the caller supplied. The
  CreateSearchSubscription of interface.go inserts the caller's id, is_active and
  created_at as they are.
\<close>

theorem CreateSearchSubscription_is_authoritative:
  "(CreateSearchSubscription w sub = ((sub', None), w') \<longrightarrow>
      sub_ID sub' \<noteq> ''''
      \<and> sub_ID sub' = (if sub_ID sub = '''' then uuid_String (uuid_New w) else sub_ID sub)
      \<and> sub_IsActive sub' \<and> sub_CreatedAt sub' = now w
      \<and> (\<exists>r. ydb w' ''search_subscriptions'' = ydb w ''search_subscriptions'' @ [r]
             \<and> r ''id'' = Some (UTF8Value (sub_ID sub'))
             \<and> r ''is_active'' = Some (BoolValue True)
             \<and> r ''created_at'' = Some (TimestampValueFromTime (now w))))
   \<and> (CreateSearchSubscription_iface w sub = (None, w') \<longrightarrow>
        (\<exists>r. ydb w' ''search_subscriptions'' = ydb w ''search_subscriptions'' @ [r]
             \<and> r ''id'' = Some (UTF8Value (sub_ID sub))
             \<and> r ''is_active'' = Some (BoolValue (sub_IsActive sub))
             \<and> r ''created_at'' = Some (DatetimeValue (unix_uint32 (sub_CreatedAt sub)))))"
proof (intro conjI impI)
  assume a: "CreateSearchSubscription w sub = ((sub', None), w')"
  note s = CreateSearchSubscription_success [OF a]
  show "sub_ID sub' \<noteq> ''''"
    by (simp add: s(1) uuid_String_nonempty)
  show "sub_ID sub' = (if sub_ID sub = '''' then uuid_String (uuid_New w) else sub_ID sub)"
    "sub_IsActive sub'" "sub_CreatedAt sub' = now w"
    by (simp_all add: s(1))
  have "map_of (CreateSearchSubscription_params sub') ''id'' = Some (UTF8Value (sub_ID sub'))"
    "map_of (CreateSearchSubscription_params sub') ''is_active'' = Some (BoolValue True)"
    "map_of (CreateSearchSubscription_params sub') ''created_at'' = Some (TimestampValueFromTime (now w))"
    by (simp_all add: CreateSearchSubscription_params_def s(1))
  then show "\<exists>r. ydb w' ''search_subscriptions'' = ydb w ''search_subscriptions'' @ [r]
             \<and> r ''id'' = Some (UTF8Value (sub_ID sub'))
             \<and> r ''is_active'' = Some (BoolValue True)
             \<and> r ''created_at'' = Some (TimestampValueFromTime (now w))"
    using s(2) by blast
next
  assume a: "CreateSearchSubscription_iface w sub = (None, w')"
  then have "ydb w' ''search_subscriptions''
               = ydb w ''search_subscriptions'' @ [map_of (CreateSearchSubscription_iface_params sub)]"
    by (simp add: CreateSearchSubscription_iface_def CreateSearchSubscription_iface_query_def
        Exec_INSERT_success)
  moreover have "map_of (CreateSearchSubscription_iface_params sub) ''id'' = Some (UTF8Value (sub_ID sub))"
    "map_of (CreateSearchSubscription_iface_params sub) ''is_active'' = Some (BoolValue (sub_IsActive sub))"
    "map_of (CreateSearchSubscription_iface_params sub) ''created_at''
       = Some (DatetimeValue (unix_uint32 (sub_CreatedAt sub)))"
    by (simp_all add: CreateSearchSubscription_iface_params_def)
  ultimately show "\<exists>r. ydb w' ''search_subscriptions'' = ydb w ''search_subscriptions'' @ [r]
             \<and> r ''id'' = Some (UTF8Value (sub_ID sub))
             \<and> r ''is_active'' = Some (BoolValue (sub_IsActive sub))
             \<and> r ''created_at'' = Some (DatetimeValue (unix_uint32 (sub_CreatedAt sub)))"
    by blast
qed

theorem CreateSearchSubscription_is_authoritative_witness:
  "fst (CreateSearchSubscription process_start paris_lyon)
     = (paris_lyon\<lparr>sub_ID := uuid_String (uuid_New process_start),
                    sub_CreatedAt := now process_start, sub_IsActive := True\<rparr>, None)
   \<and> sub_ID (fst (fst (CreateSearchSubscription process_start paris_lyon))) \<noteq> ''''
   \<and> fst (CreateSearchSubscription_iface process_start paris_lyon) = None
   \<and> (\<exists>r. ydb (snd (CreateSearchSubscription_iface process_start paris_lyon)) ''search_subscriptions''
              = ydb process_start ''search_subscriptions'' @ [r]
          \<and> r ''is_active'' = Some (BoolValue False))"
proof -
  have run: "fst (CreateSearchSubscription process_start paris_lyon)
     = (paris_lyon\<lparr>sub_ID := uuid_String (uuid_New process_start),
                    sub_CreatedAt := now process_start, sub_IsActive := True\<rparr>, None)"
    by (simp add: CreateSearchSubscription_def CreateSearchSubscription_query_def
        CreateSearchSubscription_params_def paris_lyon_def run_simps)
  have h: "CreateSearchSubscription process_start paris_lyon
          = ((fst (fst (CreateSearchSubscription process_start paris_lyon)), None),
             snd (CreateSearchSubscription process_start paris_lyon))"
    by (simp add: prod_eq_iff run)
  have run_iface: "fst (CreateSearchSubscription_iface process_start paris_lyon) = None"
    by (simp add: CreateSearchSubscription_iface_def CreateSearchSubscription_iface_query_def
        CreateSearchSubscription_iface_params_def paris_lyon_def run_simps)
  have hi: "CreateSearchSubscription_iface process_start paris_lyon
          = (None, snd (CreateSearchSubscription_iface process_start paris_lyon))"
    by (simp add: prod_eq_iff run_iface)
  have iact: "sub_IsActive paris_lyon = False"
    by (simp add: paris_lyon_def)
  from CreateSearchSubscription_is_authoritative [THEN conjunct1, rule_format, OF h]
    CreateSearchSubscription_is_authoritative [THEN conjunct2, rule_format, OF hi]
    run run_iface iact
  show ?thesis by auto
qed

text \<open>
  The claim as stated fails for the CreateSearchSubscription of interface.go: the row it
  inserts for a subscription without id has the empty id, is not active, and its
  created_at is not the current time.
\<close>

theorem CreateSearchSubscription_iface_counterexample:
  "fst (CreateSearchSubscription_iface process_start paris_lyon) = None
   \<and> hd (ydb (snd (CreateSearchSubscription_iface process_start paris_lyon)) ''search_subscriptions'') ''id''
       = Some (UTF8Value '''')
   \<and> hd (ydb (snd (CreateSearchSubscription_iface process_start paris_lyon)) ''search_subscriptions'') ''is_active''
       = Some (BoolValue False)
   \<and> hd (ydb (snd (CreateSearchSubscription_iface process_start paris_lyon)) ''search_subscriptions'') ''created_at''
       = Some (DatetimeValue 2288912640)
   \<and> unix_uint32 (now process_start) = 1700000000"
  by (simp add: CreateSearchSubscription_iface_def CreateSearchSubscription_iface_query_def
      CreateSearchSubscription_iface_params_def paris_lyon_def
      run_simps unix_uint32_def Unix_def zero_time_def)

subsection \<open>Storing and reading tokens\<close>

lemma Table_Do_UPSERT_written:
  assumes "Table_Do w (UPSERT t vs) = (Inr res, w')"
  shows "\<exists>r \<in> set (ydb w' t). r (primary_key t) = map_of vs (primary_key t)"
    and "\<forall>r \<in> set (ydb w' t). r (primary_key t) = map_of vs (primary_key t)
            \<longrightarrow> (\<forall>c v. map_of vs c = Some v \<longrightarrow> r c = Some v)"
proof -
  let ?k = "primary_key t" and ?r = "map_of vs"
  have w': "ydb w' t = (if list_ex (\<lambda>r0. r0 ?k = ?r ?k) (ydb w t)
                       then map (\<lambda>r0. if r0 ?k = ?r ?k then r0 ++ ?r else r0) (ydb w t)
                       else ydb w t @ [?r])"
    using assms by (auto simp: Table_Do_UPSERT split: option.splits if_splits)
  show "\<exists>r \<in> set (ydb w' t). r ?k = ?r ?k"
  proof (cases "list_ex (\<lambda>r0. r0 ?k = ?r ?k) (ydb w t)")
    case True
    then obtain r0 where r0: "r0 \<in> set (ydb w t)" "r0 ?k = ?r ?k"
      by (auto simp: list_ex_iff)
    then have "(r0 ++ ?r) \<in> set (ydb w' t)"
      by (auto simp: w' True)
    moreover have "(r0 ++ ?r) ?k = ?r ?k"
      using r0(2) by (simp add: map_add_def split: option.splits)
    ultimately show ?thesis by blast
  next
    case False
    then show ?thesis by (simp add: w')
  qed
  show "\<forall>r \<in> set (ydb w' t). r ?k = ?r ?k \<longrightarrow> (\<forall>c v. ?r c = Some v \<longrightarrow> r c = Some v)"
  proof (cases "list_ex (\<lambda>r0. r0 ?k = ?r ?k) (ydb w t)")
    case True
    then show ?thesis
      by (auto simp: w' map_add_def split: if_splits)
  next
    case False
    then show ?thesis
      by (auto simp: w' list_ex_iff)
  qed
qed

lemma StoreUserTokens_success:
  assumes "StoreUserTokens w tokens = ((tokens', None), w')"
  shows "tokens' = tokens\<lparr>tok_CreatedAt := (if IsZero (tok_CreatedAt tokens) then now w else tok_CreatedAt tokens),
                           tok_UpdatedAt := now w\<rparr>"
    and "\<exists>res. Table_Do (snd (GetConnection w)) (UPSERT ''user_tokens'' (StoreUserTokens_params tokens'))
            = (Inr res, w')"
proof -
  obtain d e w1 where g: "GetConnection w = ((d, e), w1)" "execute_error w1 = execute_error w"
    "ydb w1 = ydb w" "now w1 = now w" "uuid_New w1 = uuid_New w"
    by (rule GetConnection_cases)
  let ?t2 = "tokens\<lparr>tok_CreatedAt := (if IsZero (tok_CreatedAt tokens) then now w else tok_CreatedAt tokens),
                           tok_UpdatedAt := now w\<rparr>"
  from assms have e: "e = None"
    by (auto simp: StoreUserTokens_def g split: option.splits)
  from assms obtain res where t: "Table_Do w1 (UPSERT ''user_tokens'' (StoreUserTokens_params ?t2))
           = (Inr res, w')" and s: "tokens' = ?t2"
    by (cases "Table_Do w1 (UPSERT ''user_tokens'' (StoreUserTokens_params ?t2))";
        cases "IsZero (tok_CreatedAt tokens)")
       (auto simp: StoreUserTokens_def StoreUserTokens_query_def g e Let_def split: sum.splits)
  show "tokens' = ?t2" by (rule s)
  show "\<exists>res. Table_Do (snd (GetConnection w)) (UPSERT ''user_tokens'' (StoreUserTokens_params tokens'))
            = (Inr res, w')"
    using t by (auto simp: g s)
qed

lemma StoreUserTokens_rows:
  assumes "StoreUserTokens w tokens = ((tokens', None), w')"
  shows "\<exists>r \<in> set (ydb w' ''user_tokens'').
            r ''telegram_chat_id'' = Some (Int64Value (tok_TelegramChatID tokens))"
    and "\<forall>r \<in> set (ydb w' ''user_tokens'').
            r ''telegram_chat_id'' = Some (Int64Value (tok_TelegramChatID tokens))
            \<longrightarrow> (\<forall>c v. map_of (StoreUserTokens_params tokens') c = Some v \<longrightarrow> r c = Some v)"
proof -
  note s = StoreUserTokens_success [OF assms]
  from s(2) obtain res where t:
    "Table_Do (snd (GetConnection w)) (UPSERT ''user_tokens'' (StoreUserTokens_params tokens')) = (Inr res, w')" ..
  have k: "map_of (StoreUserTokens_params tokens') (primary_key ''user_tokens'')
             = Some (Int64Value (tok_TelegramChatID tokens))"
    by (simp add: StoreUserTokens_params_def primary_key_def s(1) Let_def)
  show "\<exists>r \<in> set (ydb w' ''user_tokens'').
            r ''telegram_chat_id'' = Some (Int64Value (tok_TelegramChatID tokens))"
    using Table_Do_UPSERT_written(1) [OF t] k by (simp add: primary_key_def)
  show "\<forall>r \<in> set (ydb w' ''user_tokens'').
            r ''telegram_chat_id'' = Some (Int64Value (tok_TelegramChatID tokens))
            \<longrightarrow> (\<forall>c v. map_of (StoreUserTokens_params tokens') c = Some v \<longrightarrow> r c = Some v)"
    using Table_Do_UPSERT_written(2) [OF t] k by (simp add: primary_key_def)
qed

lemma StoreUserTokens_iface_rows:
  assumes "StoreUserTokens_iface w tokens = (None, w')"
  shows "\<exists>r \<in> set (ydb w' ''user_tokens'').
            r ''telegram_chat_id'' = Some (Int64Value (tok_TelegramChatID tokens))"
    and "\<forall>r \<in> set (ydb w' ''user_tokens'').
            r ''telegram_chat_id'' = Some (Int64Value (tok_TelegramChatID tokens))
            \<longrightarrow> (\<forall>c v. map_of (StoreUserTokens_iface_params tokens) c = Some v \<longrightarrow> r c = Some v)"
proof -
  from assms have "Exec w (UPSERT ''user_tokens'' (StoreUserTokens_iface_params tokens)) = (None, w')"
    by (simp add: StoreUserTokens_iface_def StoreUserTokens_iface_query_def)
  from Exec_success(1) [OF this] obtain res where t:
    "Table_Do (snd (GetConnection w)) (UPSERT ''user_tokens'' (StoreUserTokens_iface_params tokens)) = (Inr res, w')" ..
  have k: "map_of (StoreUserTokens_iface_params tokens) (primary_key ''user_tokens'')
             = Some (Int64Value (tok_TelegramChatID tokens))"
    by (simp add: StoreUserTokens_iface_params_def primary_key_def Let_def)
  show "\<exists>r \<in> set (ydb w' ''user_tokens'').
            r ''telegram_chat_id'' = Some (Int64Value (tok_TelegramChatID tokens))"
    using Table_Do_UPSERT_written(1) [OF t] k by (simp add: primary_key_def)
  show "\<forall>r \<in> set (ydb w' ''user_tokens'').
            r ''telegram_chat_id'' = Some (Int64Value (tok_TelegramChatID tokens))
            \<longrightarrow> (\<forall>c v. map_of (StoreUserTokens_iface_params tokens) c = Some v \<longrightarrow> r c = Some v)"
    using Table_Do_UPSERT_written(2) [OF t] k by (simp add: primary_key_def)
qed

text \<open>
  C2, as amended. A successful StoreUserTokens of repository.go writes the full row of
  the chat identity with updated_at the current time, and created_at the caller's value
  when that was set and the current time when it was zero; the caller sees the same two
  times in its tokens. The StoreUserTokens of interface.go writes the caller's
  created_at and updated_at as they are.
\<close>

theorem StoreUserTokens_refreshes_updated_at:
  "(StoreUserTokens w tokens = ((tokens', None), w') \<longrightarrow>
      tok_UpdatedAt tokens' = now w
      \<and> tok_CreatedAt tokens' = (if IsZero (tok_CreatedAt tokens) then now w else tok_CreatedAt tokens)
      \<and> (\<exists>r \<in> set (ydb w' ''user_tokens'').
             r ''telegram_chat_id'' = Some (Int64Value (tok_TelegramChatID tokens)))
      \<and> (\<forall>r \<in> set (ydb w' ''user_tokens'').
             r ''telegram_chat_id'' = Some (Int64Value (tok_TelegramChatID tokens)) \<longrightarrow>
               r ''access_token'' = Some (UTF8Value (tok_AccessToken tokens))
               \<and> r ''refresh_token'' = Some (UTF8Value (tok_RefreshToken tokens))
               \<and> r ''user_id'' = Some (UTF8Value (tok_UserID tokens))
               \<and> r ''datadome'' = Some (if tok_Datadome tokens \<noteq> ''''
                                         then OptionalValue (UTF8Value (tok_Datadome tokens))
                                         else NullValue TypeUTF8)
               \<and> r ''app_token'' = Some (if tok_AppToken tokens \<noteq> ''''
                                          then OptionalValue (UTF8Value (tok_AppToken tokens))
                                          else NullValue TypeUTF8)
               \<and> r ''created_at'' = Some (TimestampValueFromTime
                     (if IsZero (tok_CreatedAt tokens) then now w else tok_CreatedAt tokens))
               \<and> r ''updated_at'' = Some (TimestampValueFromTime (now w))))
   \<and> (StoreUserTokens_iface w tokens = (None, w') \<longrightarrow>
        (\<exists>r \<in> set (ydb w' ''user_tokens'').
             r ''telegram_chat_id'' = Some (Int64Value (tok_TelegramChatID tokens)))
        \<and> (\<forall>r \<in> set (ydb w' ''user_tokens'').
             r ''telegram_chat_id'' = Some (Int64Value (tok_TelegramChatID tokens)) \<longrightarrow>
               r ''created_at'' = Some (DatetimeValue (unix_uint32 (tok_CreatedAt tokens)))
               \<and> r ''updated_at'' = Some (DatetimeValue (unix_uint32 (tok_UpdatedAt tokens)))))"
proof (intro conjI impI)
  assume a: "StoreUserTokens w tokens = ((tokens', None), w')"
  note s = StoreUserTokens_success(1) [OF a]
  show "tok_UpdatedAt tokens' = now w"
    "tok_CreatedAt tokens' = (if IsZero (tok_CreatedAt tokens) then now w else tok_CreatedAt tokens)"
    by (simp_all add: s)
  show "\<exists>r \<in> set (ydb w' ''user_tokens'').
             r ''telegram_chat_id'' = Some (Int64Value (tok_TelegramChatID tokens))"
    by (rule StoreUserTokens_rows(1) [OF a])
  have p: "map_of (StoreUserTokens_params tokens') ''access_token'' = Some (UTF8Value (tok_AccessToken tokens))"
    "map_of (StoreUserTokens_params tokens') ''refresh_token'' = Some (UTF8Value (tok_RefreshToken tokens))"
    "map_of (StoreUserTokens_params tokens') ''user_id'' = Some (UTF8Value (tok_UserID tokens))"
    "map_of (StoreUserTokens_params tokens') ''datadome''
       = Some (if tok_Datadome tokens \<noteq> '''' then OptionalValue (UTF8Value (tok_Datadome tokens))
               else NullValue TypeUTF8)"
    "map_of (StoreUserTokens_params tokens') ''app_token''
       = Some (if tok_AppToken tokens \<noteq> '''' then OptionalValue (UTF8Value (tok_AppToken tokens))
               else NullValue TypeUTF8)"
    "map_of (StoreUserTokens_params tokens') ''created_at''
       = Some (TimestampValueFromTime (if IsZero (tok_CreatedAt tokens) then now w else tok_CreatedAt tokens))"
    "map_of (StoreUserTokens_params tokens') ''updated_at'' = Some (TimestampValueFromTime (now w))"
    by (simp_all add: StoreUserTokens_params_def s Let_def OptionalValueOf_def)
  show "\<forall>r \<in> set (ydb w' ''user_tokens'').
             r ''telegram_chat_id'' = Some (Int64Value (tok_TelegramChatID tokens)) \<longrightarrow>
               r ''access_token'' = Some (UTF8Value (tok_AccessToken tokens))
               \<and> r ''refresh_token'' = Some (UTF8Value (tok_RefreshToken tokens))
               \<and> r ''user_id'' = Some (UTF8Value (tok_UserID tokens))
               \<and> r ''datadome'' = Some (if tok_Datadome tokens \<noteq> ''''
                                         then OptionalValue (UTF8Value (tok_Datadome tokens))
                                         else NullValue TypeUTF8)
               \<and> r ''app_token'' = Some (if tok_AppToken tokens \<noteq> ''''
                                          then OptionalValue (UTF8Value (tok_AppToken tokens))
                                          else NullValue TypeUTF8)
               \<and> r ''created_at'' = Some (TimestampValueFromTime
                     (if IsZero (tok_CreatedAt tokens) then now w else tok_CreatedAt tokens))
               \<and> r ''updated_at'' = Some (TimestampValueFromTime (now w))"
    using StoreUserTokens_rows(2) [OF a] p by blast
next
  assume a: "StoreUserTokens_iface w tokens = (None, w')"
  show "\<exists>r \<in> set (ydb w' ''user_tokens'').
             r ''telegram_chat_id'' = Some (Int64Value (tok_TelegramChatID tokens))"
    by (rule StoreUserTokens_iface_rows(1) [OF a])
  have p: "map_of (StoreUserTokens_iface_params tokens) ''created_at''
       = Some (DatetimeValue (unix_uint32 (tok_CreatedAt tokens)))"
    "map_of (StoreUserTokens_iface_params tokens) ''updated_at''
       = Some (DatetimeValue (unix_uint32 (tok_UpdatedAt tokens)))"
    by (simp_all add: StoreUserTokens_iface_params_def Let_def)
  show "\<forall>r \<in> set (ydb w' ''user_tokens'').
             r ''telegram_chat_id'' = Some (Int64Value (tok_TelegramChatID tokens)) \<longrightarrow>
               r ''created_at'' = Some (DatetimeValue (unix_uint32 (tok_CreatedAt tokens)))
               \<and> r ''updated_at'' = Some (DatetimeValue (unix_uint32 (tok_UpdatedAt tokens)))"
    using StoreUserTokens_iface_rows(2) [OF a] p by blast
qed

lemma with_tokens_eq:
  "with_tokens = process_start\<lparr>once_done := True, db := Some (Driver ''grpcs://ydb.example:2135/local''),
       ydb := (\<lambda>t. [])(''user_tokens'' :=
         [map_of [(''telegram_chat_id'', Int64Value 12345), (''access_token'', UTF8Value ''access''),
           (''refresh_token'', UTF8Value ''refresh''), (''user_id'', UTF8Value ''u-1''),
           (''datadome'', NullValue TypeUTF8), (''app_token'', OptionalValue (UTF8Value ''app'')),
           (''created_at'', TimestampValue 1700000000123456),
           (''updated_at'', TimestampValue 1700000000123456)]])\<rparr>"
  by (simp add: with_tokens_def StoreUserTokens_def StoreUserTokens_query_def StoreUserTokens_params_def
      stale_tokens_def run_simps IsZero_def zero_time_def TimestampValueFromTime_def OptionalValueOf_def)

lemma zero_time_uint32: "(- 62135596800 :: 32 word) = 2288912640"
  by simp

lemma with_tokens_iface_eq:
  "with_tokens_iface = process_start\<lparr>once_done := True, db := Some (Driver ''grpcs://ydb.example:2135/local''),
       ydb := (\<lambda>t. [])(''user_tokens'' :=
         [map_of [(''telegram_chat_id'', Int64Value 12345), (''access_token'', UTF8Value ''access''),
           (''refresh_token'', UTF8Value ''refresh''), (''user_id'', UTF8Value ''u-1''),
           (''datadome'', NullValue TypeUTF8), (''app_token'', OptionalValue (UTF8Value ''app'')),
           (''created_at'', DatetimeValue 2288912640),
           (''updated_at'', DatetimeValue 1600000000)]])\<rparr>"
  by (simp add: with_tokens_iface_def StoreUserTokens_iface_def StoreUserTokens_iface_query_def
      StoreUserTokens_iface_params_def stale_tokens_def run_simps zero_time_def optionalText_def
      unix_uint32_def Unix_def zero_time_uint32)

theorem StoreUserTokens_refreshes_updated_at_witness:
  "fst (StoreUserTokens process_start stale_tokens)
     = (stale_tokens\<lparr>tok_CreatedAt := now process_start, tok_UpdatedAt := now process_start\<rparr>, None)
   \<and> hd (ydb with_tokens ''user_tokens'') ''created_at''
       = Some (TimestampValueFromTime (now process_start))
   \<and> hd (ydb with_tokens ''user_tokens'') ''updated_at''
       = Some (TimestampValueFromTime (now process_start))
   \<and> fst (StoreUserTokens_iface process_start stale_tokens) = None
   \<and> hd (ydb with_tokens_iface ''user_tokens'') ''updated_at'' = Some (DatetimeValue 1600000000)"
proof -
  have run: "fst (StoreUserTokens process_start stale_tokens)
     = (stale_tokens\<lparr>tok_CreatedAt := now process_start, tok_UpdatedAt := now process_start\<rparr>, None)"
    by (simp add: StoreUserTokens_def StoreUserTokens_query_def StoreUserTokens_params_def
        stale_tokens_def run_simps IsZero_def zero_time_def)
  have h: "StoreUserTokens process_start stale_tokens
          = ((fst (fst (StoreUserTokens process_start stale_tokens)), None), with_tokens)"
    by (simp add: prod_eq_iff run with_tokens_def)
  have run_iface: "fst (StoreUserTokens_iface process_start stale_tokens) = None"
    by (simp add: StoreUserTokens_iface_def StoreUserTokens_iface_query_def
        StoreUserTokens_iface_params_def stale_tokens_def run_simps)
  have hi: "StoreUserTokens_iface process_start stale_tokens = (None, with_tokens_iface)"
    by (simp add: prod_eq_iff run_iface with_tokens_iface_def)
  have c: "tok_TelegramChatID stale_tokens = 12345" "IsZero (tok_CreatedAt stale_tokens)"
    "unix_uint32 (tok_UpdatedAt stale_tokens) = 1600000000"
    by (simp_all add: stale_tokens_def IsZero_def zero_time_def unix_uint32_def Unix_def)
  have m: "hd (ydb with_tokens ''user_tokens'') \<in> set (ydb with_tokens ''user_tokens'')"
    "hd (ydb with_tokens ''user_tokens'') ''telegram_chat_id'' = Some (Int64Value 12345)"
    by (simp_all add: with_tokens_eq process_start_def)
  have mi: "hd (ydb with_tokens_iface ''user_tokens'') \<in> set (ydb with_tokens_iface ''user_tokens'')"
    "hd (ydb with_tokens_iface ''user_tokens'') ''telegram_chat_id'' = Some (Int64Value 12345)"
    by (simp_all add: with_tokens_iface_eq process_start_def)
  from StoreUserTokens_refreshes_updated_at [THEN conjunct1, rule_format, OF h]
    StoreUserTokens_refreshes_updated_at [THEN conjunct2, rule_format, OF hi]
    run run_iface c m mi
  show ?thesis by auto
qed

text \<open>
  The claim as stated fails for the StoreUserTokens of interface.go: the row keeps the
  caller's old updated_at, and an unset created_at is not replaced by the current time.
\<close>

theorem StoreUserTokens_iface_counterexample:
  "fst (StoreUserTokens_iface process_start stale_tokens) = None
   \<and> hd (ydb (snd (StoreUserTokens_iface process_start stale_tokens)) ''user_tokens'') ''updated_at''
       = Some (DatetimeValue 1600000000)
   \<and> hd (ydb (snd (StoreUserTokens_iface process_start stale_tokens)) ''user_tokens'') ''created_at''
       = Some (DatetimeValue 2288912640)
   \<and> IsZero (tok_CreatedAt stale_tokens)
   \<and> unix_uint32 (now process_start) = 1700000000"
  by (simp add: StoreUserTokens_iface_def StoreUserTokens_iface_query_def
      StoreUserTokens_iface_params_def stale_tokens_def optionalText_def
      run_simps unix_uint32_def Unix_def zero_time_def IsZero_def)

lemma scan_string_null: "is_null v \<Longrightarrow> scan_string v = Inr ''''"
  by (cases v) (simp_all add: is_null_def)

lemma Scan_UserTokens_null:
  assumes "Scan_UserTokens (project [''telegram_chat_id'', ''access_token'', ''refresh_token'', ''user_id'',
              ''datadome'', ''app_token'', ''created_at'', ''updated_at''] r) = Inr t"
  shows "is_null (column r ''datadome'') \<longrightarrow> tok_Datadome t = ''''"
    and "is_null (column r ''app_token'') \<longrightarrow> tok_AppToken t = ''''"
  using assms
  by (auto simp: Scan_UserTokens_def project_def bind_scan_def scan_string_null split: sum.splits)

lemma ScanRow_UserTokens_null:
  assumes "ScanRow_UserTokens (project [''telegram_chat_id'', ''access_token'', ''refresh_token'', ''user_id'',
              ''datadome'', ''app_token'', ''created_at'', ''updated_at''] r) = Inr t"
  shows "is_null (column r ''datadome'') \<longrightarrow> tok_Datadome t = ''''"
    and "is_null (column r ''app_token'') \<longrightarrow> tok_AppToken t = ''''"
  using assms
  by (auto simp: ScanRow_UserTokens_def project_def named_def bind_scan_def scan_string_null
      split: sum.splits)

lemma GetUserTokens_success:
  assumes "GetUserTokens w chatID = ((Some t, None), w1)"
  shows "w1 = snd (GetConnection w)"
    and "\<exists>r rest. chat_rows w ''user_tokens'' chatID = r # rest
           \<and> Scan_UserTokens (project [''telegram_chat_id'', ''access_token'', ''refresh_token'',
                 ''user_id'', ''datadome'', ''app_token'', ''created_at'', ''updated_at''] r) = Inr t"
  using assms
  by (auto simp: GetUserTokens_eq split: option.splits list.splits sum.splits)

lemma GetUserTokens_iface_success:
  assumes "GetUserTokens_iface w chatID = ((Some t, None), w1)"
  shows "w1 = snd (GetConnection w)"
    and "\<exists>r rest. chat_rows w ''user_tokens'' chatID = r # rest
           \<and> ScanRow_UserTokens (project [''telegram_chat_id'', ''access_token'', ''refresh_token'',
                 ''user_id'', ''datadome'', ''app_token'', ''created_at'', ''updated_at''] r) = Inr t"
  using assms
  by (auto simp: GetUserTokens_iface_eq split: option.splits list.splits sum.splits)

text \<open>
  C6. When the datadome or the app_token of the tokens is the empty string, a successful
  StoreUserTokens (of either implementation) writes the null of the text type into that
  column of the chat identity's row; and when that column of the row read is null, the
  tokens returned by GetUserTokens (of either implementation) have the empty string in
  that field.
\<close>

theorem blank_auxiliary_token_is_null:
  "(StoreUserTokens w tokens = ((tokens', None), w') \<longrightarrow>
      (\<exists>r \<in> set (ydb w' ''user_tokens'').
          r ''telegram_chat_id'' = Some (Int64Value (tok_TelegramChatID tokens)))
      \<and> (\<forall>r \<in> set (ydb w' ''user_tokens'').
          r ''telegram_chat_id'' = Some (Int64Value (tok_TelegramChatID tokens)) \<longrightarrow>
            (tok_Datadome tokens = '''' \<longrightarrow> r ''datadome'' = Some (NullValue TypeUTF8))
            \<and> (tok_AppToken tokens = '''' \<longrightarrow> r ''app_token'' = Some (NullValue TypeUTF8))))
   \<and> (StoreUserTokens_iface w tokens = (None, w') \<longrightarrow>
      (\<exists>r \<in> set (ydb w' ''user_tokens'').
          r ''telegram_chat_id'' = Some (Int64Value (tok_TelegramChatID tokens)))
      \<and> (\<forall>r \<in> set (ydb w' ''user_tokens'').
          r ''telegram_chat_id'' = Some (Int64Value (tok_TelegramChatID tokens)) \<longrightarrow>
            (tok_Datadome tokens = '''' \<longrightarrow> r ''datadome'' = Some (NullValue TypeText))
            \<and> (tok_AppToken tokens = '''' \<longrightarrow> r ''app_token'' = Some (NullValue TypeText))))
   \<and> (GetUserTokens v chatID = ((Some t, None), v') \<longrightarrow>
      (is_null (column (hd (chat_rows v ''user_tokens'' chatID)) ''datadome'') \<longrightarrow> tok_Datadome t = '''')
      \<and> (is_null (column (hd (chat_rows v ''user_tokens'' chatID)) ''app_token'') \<longrightarrow> tok_AppToken t = ''''))
   \<and> (GetUserTokens_iface v chatID = ((Some t, None), v') \<longrightarrow>
      (is_null (column (hd (chat_rows v ''user_tokens'' chatID)) ''datadome'') \<longrightarrow> tok_Datadome t = '''')
      \<and> (is_null (column (hd (chat_rows v ''user_tokens'' chatID)) ''app_token'') \<longrightarrow> tok_AppToken t = ''''))"
proof (intro conjI impI ballI)
  assume a: "StoreUserTokens w tokens = ((tokens', None), w')"
  show "\<exists>r \<in> set (ydb w' ''user_tokens'').
          r ''telegram_chat_id'' = Some (Int64Value (tok_TelegramChatID tokens))"
    by (rule StoreUserTokens_rows(1) [OF a])
  fix r
  assume r: "r \<in> set (ydb w' ''user_tokens'')"
    "r ''telegram_chat_id'' = Some (Int64Value (tok_TelegramChatID tokens))"
  note s = StoreUserTokens_success(1) [OF a]
  {
    assume "tok_Datadome tokens = ''''"
    then have "map_of (StoreUserTokens_params tokens') ''datadome'' = Some (NullValue TypeUTF8)"
      by (simp add: StoreUserTokens_params_def s Let_def OptionalValueOf_def)
    then show "r ''datadome'' = Some (NullValue TypeUTF8)"
      using StoreUserTokens_rows(2) [OF a] r by blast
  }
  {
    assume "tok_AppToken tokens = ''''"
    then have "map_of (StoreUserTokens_params tokens') ''app_token'' = Some (NullValue TypeUTF8)"
      by (simp add: StoreUserTokens_params_def s Let_def OptionalValueOf_def)
    then show "r ''app_token'' = Some (NullValue TypeUTF8)"
      using StoreUserTokens_rows(2) [OF a] r by blast
  }
next
  assume a: "StoreUserTokens_iface w tokens = (None, w')"
  show "\<exists>r \<in> set (ydb w' ''user_tokens'').
          r ''telegram_chat_id'' = Some (Int64Value (tok_TelegramChatID tokens))"
    by (rule StoreUserTokens_iface_rows(1) [OF a])
  fix r
  assume r: "r \<in> set (ydb w' ''user_tokens'')"
    "r ''telegram_chat_id'' = Some (Int64Value (tok_TelegramChatID tokens))"
  {
    assume "tok_Datadome tokens = ''''"
    then have "map_of (StoreUserTokens_iface_params tokens) ''datadome'' = Some (NullValue TypeText)"
      by (simp add: StoreUserTokens_iface_params_def Let_def optionalText_def)
    then show "r ''datadome'' = Some (NullValue TypeText)"
      using StoreUserTokens_iface_rows(2) [OF a] r by blast
  }
  {
    assume "tok_AppToken tokens = ''''"
    then have "map_of (StoreUserTokens_iface_params tokens) ''app_token'' = Some (NullValue TypeText)"
      by (simp add: StoreUserTokens_iface_params_def Let_def optionalText_def)
    then show "r ''app_token'' = Some (NullValue TypeText)"
      using StoreUserTokens_iface_rows(2) [OF a] r by blast
  }
next
  assume a: "GetUserTokens v chatID = ((Some t, None), v')"
  from GetUserTokens_success(2) [OF a] obtain r rest
    where r: "chat_rows v ''user_tokens'' chatID = r # rest"
      "Scan_UserTokens (project [''telegram_chat_id'', ''access_token'', ''refresh_token'',
                 ''user_id'', ''datadome'', ''app_token'', ''created_at'', ''updated_at''] r) = Inr t"
    by blast
  {
    assume "is_null (column (hd (chat_rows v ''user_tokens'' chatID)) ''datadome'')"
    then show "tok_Datadome t = ''''"
      using Scan_UserTokens_null(1) [OF r(2)] by (simp add: r(1))
  }
  {
    assume "is_null (column (hd (chat_rows v ''user_tokens'' chatID)) ''app_token'')"
    then show "tok_AppToken t = ''''"
      using Scan_UserTokens_null(2) [OF r(2)] by (simp add: r(1))
  }
next
  assume a: "GetUserTokens_iface v chatID = ((Some t, None), v')"
  from GetUserTokens_iface_success(2) [OF a] obtain r rest
    where r: "chat_rows v ''user_tokens'' chatID = r # rest"
      "ScanRow_UserTokens (project [''telegram_chat_id'', ''access_token'', ''refresh_token'',
                 ''user_id'', ''datadome'', ''app_token'', ''created_at'', ''updated_at''] r) = Inr t"
    by blast
  {
    assume "is_null (column (hd (chat_rows v ''user_tokens'' chatID)) ''datadome'')"
    then show "tok_Datadome t = ''''"
      using ScanRow_UserTokens_null(1) [OF r(2)] by (simp add: r(1))
  }
  {
    assume "is_null (column (hd (chat_rows v ''user_tokens'' chatID)) ''app_token'')"
    then show "tok_AppToken t = ''''"
      using ScanRow_UserTokens_null(2) [OF r(2)] by (simp add: r(1))
  }
qed

theorem blank_auxiliary_token_is_null_witness:
  "fst (StoreUserTokens process_start stale_tokens)
       = (stale_tokens\<lparr>tok_CreatedAt := now process_start, tok_UpdatedAt := now process_start\<rparr>, None)
   \<and> fst (StoreUserTokens_iface process_start stale_tokens) = None
   \<and> tok_Datadome stale_tokens = ''''
   \<and> hd (ydb with_tokens ''user_tokens'') ''datadome'' = Some (NullValue TypeUTF8)
   \<and> hd (ydb with_tokens_iface ''user_tokens'') ''datadome'' = Some (NullValue TypeText)
   \<and> GetUserTokens with_tokens 12345
     = ((Some (stale_tokens\<lparr>tok_CreatedAt := Time 1700000000 123456000,
                             tok_UpdatedAt := Time 1700000000 123456000\<rparr>), None), with_tokens)
   \<and> is_null (column (hd (chat_rows with_tokens ''user_tokens'' 12345)) ''datadome'')
   \<and> tok_Datadome (stale_tokens\<lparr>tok_CreatedAt := Time 1700000000 123456000,
                                 tok_UpdatedAt := Time 1700000000 123456000\<rparr>) = ''''
   \<and> GetUserTokens_iface with_tokens_iface 12345
     = ((Some (stale_tokens\<lparr>tok_CreatedAt := Time 2288912640 0\<rparr>), None), with_tokens_iface)
   \<and> is_null (column (hd (chat_rows with_tokens_iface ''user_tokens'' 12345)) ''datadome'')
   \<and> tok_Datadome (stale_tokens\<lparr>tok_CreatedAt := Time 2288912640 0\<rparr>) = ''''"
proof -
  have g: "GetUserTokens with_tokens 12345
     = ((Some (stale_tokens\<lparr>tok_CreatedAt := Time 1700000000 123456000,
                             tok_UpdatedAt := Time 1700000000 123456000\<rparr>), None), with_tokens)"
    by (simp add: with_tokens_eq GetUserTokens_def GetUserTokens_query_def Scan_UserTokens_def
        stale_tokens_def run_simps time_of_micros_def)
  have n: "is_null (column (hd (chat_rows with_tokens ''user_tokens'' 12345)) ''datadome'')"
    by (simp add: with_tokens_eq chat_rows_def process_start_def matches_def column_def is_null_def)
  have gi: "GetUserTokens_iface with_tokens_iface 12345
     = ((Some (stale_tokens\<lparr>tok_CreatedAt := Time 2288912640 0\<rparr>), None), with_tokens_iface)"
    by (simp add: with_tokens_iface_eq GetUserTokens_iface_def GetUserTokens_query_def
        ScanRow_UserTokens_def stale_tokens_def run_simps time_Unix_def)
  have ni: "is_null (column (hd (chat_rows with_tokens_iface ''user_tokens'' 12345)) ''datadome'')"
    by (simp add: with_tokens_iface_eq chat_rows_def process_start_def matches_def column_def is_null_def)
  have run: "fst (StoreUserTokens process_start stale_tokens)
     = (stale_tokens\<lparr>tok_CreatedAt := now process_start, tok_UpdatedAt := now process_start\<rparr>, None)"
    by (simp add: StoreUserTokens_def StoreUserTokens_query_def StoreUserTokens_params_def
        stale_tokens_def run_simps IsZero_def zero_time_def)
  have h: "StoreUserTokens process_start stale_tokens
          = ((fst (fst (StoreUserTokens process_start stale_tokens)), None), with_tokens)"
    by (simp add: prod_eq_iff run with_tokens_def)
  have run_iface: "fst (StoreUserTokens_iface process_start stale_tokens) = None"
    by (simp add: StoreUserTokens_iface_def StoreUserTokens_iface_query_def
        StoreUserTokens_iface_params_def stale_tokens_def run_simps)
  have hi: "StoreUserTokens_iface process_start stale_tokens = (None, with_tokens_iface)"
    by (simp add: prod_eq_iff run_iface with_tokens_iface_def)
  have c: "tok_TelegramChatID stale_tokens = 12345" "tok_Datadome stale_tokens = ''''"
    by (simp_all add: stale_tokens_def)
  have m: "hd (ydb with_tokens ''user_tokens'') \<in> set (ydb with_tokens ''user_tokens'')"
    "hd (ydb with_tokens ''user_tokens'') ''telegram_chat_id'' = Some (Int64Value 12345)"
    by (simp_all add: with_tokens_eq process_start_def)
  have mi: "hd (ydb with_tokens_iface ''user_tokens'') \<in> set (ydb with_tokens_iface ''user_tokens'')"
    "hd (ydb with_tokens_iface ''user_tokens'') ''telegram_chat_id'' = Some (Int64Value 12345)"
    by (simp_all add: with_tokens_iface_eq process_start_def)
  note t = blank_auxiliary_token_is_null
  from t [THEN conjunct1, rule_format, OF h]
    t [THEN conjunct2, THEN conjunct1, rule_format, OF hi]
    t [THEN conjunct2, THEN conjunct2, THEN conjunct1, rule_format, OF g]
    t [THEN conjunct2, THEN conjunct2, THEN conjunct2, rule_format, OF gi]
    g n gi ni run run_iface c m mi
  show ?thesis by auto
qed

subsection \<open>Notifications\<close>

lemma GetNotificationByTrip_eq:
  "GetNotificationByTrip w chatID subID tripID =
     (case snd (fst (GetConnection w)) of
        Some err \<Rightarrow> ((None, Some err), snd (GetConnection w))
      | None \<Rightarrow>
          (case execute_error w of
             Some m \<Rightarrow> ((None, Some (External m)), snd (GetConnection w))
           | None \<Rightarrow>
               (case trip_rows w chatID subID tripID of
                  [] \<Rightarrow> ((None, None), snd (GetConnection w))
                | r # _ \<Rightarrow>
                    (case Scan_Notification (project [''id'', ''telegram_chat_id'', ''subscription_id'',
                             ''trip_id'', ''telegram_message_id'', ''status'', ''created_at''] r) of
                       Inl err \<Rightarrow> ((None, Some err), snd (GetConnection w))
                     | Inr notif \<Rightarrow> ((Some notif, None), snd (GetConnection w))))))"
proof -
  obtain d e w1 where g: "GetConnection w = ((d, e), w1)" "execute_error w1 = execute_error w"
    "ydb w1 = ydb w"
    by (rule GetConnection_cases)
  show ?thesis
    by (simp add: GetNotificationByTrip_def GetNotificationByTrip_query_def g Table_Do_SELECT
        first_row_single trip_rows_def split: option.splits list.splits sum.splits)
qed

lemma GetNotificationByTrip_iface_eq:
  "GetNotificationByTrip_iface w chatID subID tripID =
     (case snd (fst (GetConnection w)) of
        Some err \<Rightarrow> ((None, Some (Errorf ''failed to query notification'' err)), snd (GetConnection w))
      | None \<Rightarrow>
          (case execute_error w of
             Some m \<Rightarrow>
               ((None, Some (Errorf ''failed to query notification'' (External m))), snd (GetConnection w))
           | None \<Rightarrow>
               (case trip_rows w chatID subID tripID of
                  [] \<Rightarrow> ((None, None), snd (GetConnection w))
                | r # _ \<Rightarrow>
                    (case Scan_Notification_iface (project [''id'', ''telegram_chat_id'',
                             ''subscription_id'', ''trip_id'', ''telegram_message_id'', ''status'',
                             ''created_at''] r) of
                       Inl err \<Rightarrow>
                         ((None, Some (Errorf ''failed to scan notification'' err)), snd (GetConnection w))
                     | Inr notif \<Rightarrow> ((Some notif, None), snd (GetConnection w))))))"
  by (simp add: GetNotificationByTrip_iface_def GetNotificationByTrip_query_def Query_SELECT
      NextRow_single trip_rows_def split: option.splits list.splits sum.splits)

lemma CreateNotification_success:
  assumes "CreateNotification w notif = ((notif', None), w')"
  shows "notif' = notif\<lparr>notif_ID := (if notif_ID notif = '''' then uuid_String (uuid_New w) else notif_ID notif),
                         notif_CreatedAt := now w, notif_Status := ''sent''\<rparr>"
    and "w' = (snd (GetConnection w))\<lparr>ydb := (ydb w)(''notifications'' :=
                  ydb w ''notifications'' @ [map_of (CreateNotification_params notif')])\<rparr>"
    and "snd (fst (GetConnection w)) = None" and "execute_error w = None"
proof -
  obtain d e w1 where g: "GetConnection w = ((d, e), w1)" "execute_error w1 = execute_error w"
    "ydb w1 = ydb w" "now w1 = now w" "uuid_New w1 = uuid_New w"
    by (rule GetConnection_cases)
  let ?n3 = "notif\<lparr>notif_ID := (if notif_ID notif = '''' then uuid_String (uuid_New w) else notif_ID notif),
                         notif_CreatedAt := now w, notif_Status := ''sent''\<rparr>"
  from assms have e: "e = None"
    by (auto simp: CreateNotification_def g split: option.splits)
  from assms obtain res where t: "Table_Do w1 (INSERT ''notifications'' (CreateNotification_params ?n3))
           = (Inr res, w')" and s: "notif' = ?n3"
    by (cases "Table_Do w1 (INSERT ''notifications'' (CreateNotification_params ?n3))";
        cases "notif_ID notif = ''''")
       (auto simp: CreateNotification_def CreateNotification_query_def g e Let_def split: sum.splits)
  show "notif' = ?n3" by (rule s)
  show "w' = (snd (GetConnection w))\<lparr>ydb := (ydb w)(''notifications'' :=
                  ydb w ''notifications'' @ [map_of (CreateNotification_params notif')])\<rparr>"
    using Table_Do_INSERT_success [OF t] by (simp add: g s)
  show "snd (fst (GetConnection w)) = None" by (simp add: g e)
  show "execute_error w = None"
    using Table_Do_INSERT_success [OF t] by (simp add: g)
qed

lemma CreateNotification_iface_success:
  assumes "CreateNotification_iface w notif = (None, w')"
  shows "w' = (snd (GetConnection w))\<lparr>ydb := (ydb w)(''notifications'' :=
                  ydb w ''notifications'' @ [map_of (CreateNotification_iface_params notif)])\<rparr>"
    and "snd (fst (GetConnection w)) = None" and "execute_error w = None"
proof -
  from assms have x: "Exec w (INSERT ''notifications'' (CreateNotification_iface_params notif)) = (None, w')"
    by (simp add: CreateNotification_iface_def CreateNotification_iface_query_def)
  from Exec_success(1) [OF x] obtain res where t:
    "Table_Do (snd (GetConnection w)) (INSERT ''notifications'' (CreateNotification_iface_params notif))
       = (Inr res, w')" ..
  show "w' = (snd (GetConnection w))\<lparr>ydb := (ydb w)(''notifications'' :=
                  ydb w ''notifications'' @ [map_of (CreateNotification_iface_params notif)])\<rparr>"
    using Table_Do_INSERT_success [OF t] by (simp add: GetConnection_frame)
  show "snd (fst (GetConnection w)) = None" by (rule Exec_success(2) [OF x])
  show "execute_error w = None"
    using Table_Do_INSERT_success [OF t] by (simp add: GetConnection_frame)
qed

lemma after_insert_connected:
  assumes "snd (fst (GetConnection w)) = None" "execute_error w = None"
    and "w' = (snd (GetConnection w))\<lparr>ydb := T\<rparr>"
  shows "snd (fst (GetConnection w')) = None" and "execute_error w' = None" and "ydb w' = T"
  using assms connected_after_GetConnection [OF assms(1)] GetConnection_frame [of w]
  by (simp_all add: GetConnection_cached)

lemma Scan_Notification_created:
  "Scan_Notification (project [''id'', ''telegram_chat_id'', ''subscription_id'', ''trip_id'',
       ''telegram_message_id'', ''status'', ''created_at''] (map_of (CreateNotification_params n)))
     = Inr (n\<lparr>notif_TelegramMessageID := scast (ucast (notif_TelegramMessageID n) :: int32),
              notif_CreatedAt := time_of_micros
                (word_of_int (sec (notif_CreatedAt n) * 1000000 + int (nsec (notif_CreatedAt n) div 1000)))\<rparr>)"
  by (simp add: Scan_Notification_def project_def column_def CreateNotification_params_def bind_scan_def
      TimestampValueFromTime_def)

lemma Scan_Notification_iface_created:
  "Scan_Notification_iface (project [''id'', ''telegram_chat_id'', ''subscription_id'', ''trip_id'',
       ''telegram_message_id'', ''status'', ''created_at''] (map_of (CreateNotification_iface_params n)))
     = Inr (n\<lparr>notif_TelegramMessageID := scast (ucast (notif_TelegramMessageID n) :: int32),
              notif_CreatedAt := time_of_uint32 (unix_uint32 (notif_CreatedAt n))\<rparr>)"
  by (simp add: Scan_Notification_iface_def project_def column_def CreateNotification_iface_params_def
      bind_scan_def)

lemma created_row_matches:
  "matches [(''telegram_chat_id'', Int64Value (notif_TelegramChatID n)),
            (''subscription_id'', UTF8Value (notif_SubscriptionID n)),
            (''trip_id'', UTF8Value (notif_TripID n))] (map_of (CreateNotification_params n))"
  "matches [(''telegram_chat_id'', Int64Value (notif_TelegramChatID n)),
            (''subscription_id'', UTF8Value (notif_SubscriptionID n)),
            (''trip_id'', UTF8Value (notif_TripID n))] (map_of (CreateNotification_iface_params n))"
  by (simp_all add: matches_def CreateNotification_params_def CreateNotification_iface_params_def)

text \<open>
  C3. When no notification row matches the triple of chat identity, subscription id and
  trip id, GetNotificationByTrip returns nil and no error; and after one successful
  CreateNotification with that triple it returns the notification that was created,
  read back from its row. Both implementations behave so.
\<close>

theorem GetNotificationByTrip_empty_then_created:
  "(snd (fst (GetConnection w)) = None \<and> execute_error w = None
      \<and> trip_rows w chatID subID tripID = [] \<longrightarrow>
        fst (GetNotificationByTrip w chatID subID tripID) = (None, None)
        \<and> fst (GetNotificationByTrip_iface w chatID subID tripID) = (None, None))
   \<and> (trip_rows w (notif_TelegramChatID n) (notif_SubscriptionID n) (notif_TripID n) = []
      \<and> CreateNotification w n = ((n', None), w') \<longrightarrow>
        fst (GetNotificationByTrip w' (notif_TelegramChatID n) (notif_SubscriptionID n) (notif_TripID n))
          = (Some (n'\<lparr>notif_TelegramMessageID := scast (ucast (notif_TelegramMessageID n) :: int32),
                       notif_CreatedAt := time_of_micros
                         (word_of_int (sec (now w) * 1000000 + int (nsec (now w) div 1000)))\<rparr>), None)
        \<and> notif_TelegramChatID n' = notif_TelegramChatID n
        \<and> notif_SubscriptionID n' = notif_SubscriptionID n
        \<and> notif_TripID n' = notif_TripID n
        \<and> notif_Status n' = ''sent'' \<and> notif_ID n' \<noteq> '''')
   \<and> (trip_rows w (notif_TelegramChatID n) (notif_SubscriptionID n) (notif_TripID n) = []
      \<and> CreateNotification_iface w n = (None, w') \<longrightarrow>
        fst (GetNotificationByTrip_iface w' (notif_TelegramChatID n) (notif_SubscriptionID n) (notif_TripID n))
          = (Some (n\<lparr>notif_TelegramMessageID := scast (ucast (notif_TelegramMessageID n) :: int32),
                      notif_CreatedAt := time_of_uint32 (unix_uint32 (notif_CreatedAt n))\<rparr>), None))"
proof (intro conjI impI; elim conjE)
  assume "snd (fst (GetConnection w)) = None" "execute_error w = None"
    "trip_rows w chatID subID tripID = []"
  then show "fst (GetNotificationByTrip w chatID subID tripID) = (None, None)"
    and "fst (GetNotificationByTrip_iface w chatID subID tripID) = (None, None)"
    by (simp_all add: GetNotificationByTrip_eq GetNotificationByTrip_iface_eq)
next
  assume none: "trip_rows w (notif_TelegramChatID n) (notif_SubscriptionID n) (notif_TripID n) = []"
    and a: "CreateNotification w n = ((n', None), w')"
  note s = CreateNotification_success [OF a]
  note c = after_insert_connected [OF s(3) s(4) s(2)]
  have triple: "notif_TelegramChatID n' = notif_TelegramChatID n"
    "notif_SubscriptionID n' = notif_SubscriptionID n" "notif_TripID n' = notif_TripID n"
    "notif_CreatedAt n' = now w"
    by (simp_all add: s(1))
  show "notif_TelegramChatID n' = notif_TelegramChatID n"
    "notif_SubscriptionID n' = notif_SubscriptionID n" "notif_TripID n' = notif_TripID n"
    by (rule triple)+
  show "notif_Status n' = ''sent''" "notif_ID n' \<noteq> ''''"
    by (simp_all add: s(1) uuid_String_nonempty)
  have rows: "trip_rows w' (notif_TelegramChatID n) (notif_SubscriptionID n) (notif_TripID n)
                = [map_of (CreateNotification_params n')]"
    using none created_row_matches(1) [of n'] by (simp add: trip_rows_def c(3) triple)
  have msg: "notif_TelegramMessageID n' = notif_TelegramMessageID n"
    by (simp add: s(1))
  show "fst (GetNotificationByTrip w' (notif_TelegramChatID n) (notif_SubscriptionID n) (notif_TripID n))
          = (Some (n'\<lparr>notif_TelegramMessageID := scast (ucast (notif_TelegramMessageID n) :: int32),
                       notif_CreatedAt := time_of_micros
                         (word_of_int (sec (now w) * 1000000 + int (nsec (now w) div 1000)))\<rparr>), None)"
    by (simp add: GetNotificationByTrip_eq c(1) c(2) rows Scan_Notification_created triple(4) msg)
next
  assume none: "trip_rows w (notif_TelegramChatID n) (notif_SubscriptionID n) (notif_TripID n) = []"
    and a: "CreateNotification_iface w n = (None, w')"
  note s = CreateNotification_iface_success [OF a]
  note c = after_insert_connected [OF s(2) s(3) s(1)]
  have rows: "trip_rows w' (notif_TelegramChatID n) (notif_SubscriptionID n) (notif_TripID n)
                = [map_of (CreateNotification_iface_params n)]"
    using none created_row_matches(2) [of n] by (simp add: trip_rows_def c(3))
  show "fst (GetNotificationByTrip_iface w' (notif_TelegramChatID n) (notif_SubscriptionID n) (notif_TripID n))
          = (Some (n\<lparr>notif_TelegramMessageID := scast (ucast (notif_TelegramMessageID n) :: int32),
                      notif_CreatedAt := time_of_uint32 (unix_uint32 (notif_CreatedAt n))\<rparr>), None)"
    by (simp add: GetNotificationByTrip_iface_eq c(1) c(2) rows Scan_Notification_iface_created)
qed

theorem GetNotificationByTrip_empty_then_created_witness:
  "fst (GetNotificationByTrip process_start 12345 ''sub-1'' ''trip-99'') = (None, None)
   \<and> fst (GetNotificationByTrip_iface process_start 12345 ''sub-1'' ''trip-99'') = (None, None)
   \<and> fst (CreateNotification process_start trip_99)
       = (trip_99\<lparr>notif_ID := uuid_String (uuid_New process_start),
                   notif_CreatedAt := now process_start, notif_Status := ''sent''\<rparr>, None)
   \<and> fst (GetNotificationByTrip (snd (CreateNotification process_start trip_99)) 12345 ''sub-1'' ''trip-99'')
       = (Some (trip_99\<lparr>notif_ID := uuid_String (uuid_New process_start),
                         notif_CreatedAt := Time 1700000000 123456000, notif_Status := ''sent''\<rparr>), None)
   \<and> fst (CreateNotification_iface process_start trip_99) = None
   \<and> fst (GetNotificationByTrip_iface (snd (CreateNotification_iface process_start trip_99))
            12345 ''sub-1'' ''trip-99'')
       = (Some (trip_99\<lparr>notif_CreatedAt := Time 2288912640 0\<rparr>), None)"
proof -
  have conn: "snd (fst (GetConnection process_start)) = None" "execute_error process_start = None"
    by (simp_all add: run_simps)
  have none: "trip_rows process_start 12345 ''sub-1'' ''trip-99'' = []"
    by (simp add: trip_rows_def process_start_def)
  have f: "notif_TelegramChatID trip_99 = 12345" "notif_SubscriptionID trip_99 = ''sub-1''"
    "notif_TripID trip_99 = ''trip-99''" "notif_TelegramMessageID trip_99 = 7"
    "notif_CreatedAt trip_99 = zero_time"
    by (simp_all add: trip_99_def)
  have run: "fst (CreateNotification process_start trip_99)
       = (trip_99\<lparr>notif_ID := uuid_String (uuid_New process_start),
                   notif_CreatedAt := now process_start, notif_Status := ''sent''\<rparr>, None)"
    by (simp add: CreateNotification_def CreateNotification_query_def CreateNotification_params_def
        trip_99_def run_simps)
  have h: "CreateNotification process_start trip_99
             = ((fst (fst (CreateNotification process_start trip_99)), None),
                snd (CreateNotification process_start trip_99))"
    by (simp add: prod_eq_iff run)
  have run_iface: "fst (CreateNotification_iface process_start trip_99) = None"
    by (simp add: CreateNotification_iface_def CreateNotification_iface_query_def
        CreateNotification_iface_params_def trip_99_def run_simps)
  have hi: "CreateNotification_iface process_start trip_99
              = (None, snd (CreateNotification_iface process_start trip_99))"
    by (simp add: prod_eq_iff run_iface)
  have t: "time_of_micros (word_of_int (sec (now process_start) * 1000000
                + int (nsec (now process_start) div 1000))) = Time 1700000000 123456000"
    "time_of_uint32 (unix_uint32 zero_time) = Time 2288912640 0"
    "(scast (ucast (7 :: 64 word) :: int32) :: 64 word) = 7"
    "time_of_micros (word_of_int (sec (now process_start)) * 1000000
                + word_of_nat (nsec (now process_start) div 1000)) = Time 1700000000 123456000"
    by (simp_all add: process_start_def time_of_micros_def time_of_uint32_def time_Unix_def
        unix_uint32_def Unix_def zero_time_def)
  note c3 = GetNotificationByTrip_empty_then_created
  from c3 [of process_start 12345 "''sub-1''" "''trip-99''", THEN conjunct1, rule_format, OF conjI [OF conn(1) conjI [OF conn(2) none]]]
    c3 [of process_start _ _ _ trip_99, THEN conjunct2, THEN conjunct1, rule_format,
         OF conjI [OF none [folded f(1) f(2) f(3)] h]]
    c3 [of process_start _ _ _ trip_99, THEN conjunct2, THEN conjunct2, rule_format,
         OF conjI [OF none [folded f(1) f(2) f(3)] hi]]
    run run_iface
  show ?thesis
    by (simp add: t trip_99_def)
qed

end
